theory Spec2Isabelle
  imports Main
begin

section \<open>JavaScript values and containers\<close>

text \<open>
  The three exchange clients are JavaScript classes. Their state is modelled by records
  that are passed in and returned, their timers by a clock field and a deadline, and
  their exceptions by values. Source names are kept behind the prefix of their class
  (\<open>bn\<close> for BinanceClient, \<open>bx\<close> for BittrexClient, \<open>bf\<close> for BitfinexClient): the
  method \<^verbatim>\<open>reconnect\<close> of BinanceClient is \<open>bn_reconnect\<close>, and its protected method
  \<^verbatim>\<open>_reconnect\<close> keeps its underscore and is \<open>bn__reconnect\<close>.
\<close>

datatype error = TypeError | SyntaxError

text \<open>
  A JavaScript value as \<^verbatim>\<open>JSON.parse\<close> produces it, and \<^verbatim>\<open>undefined\<close>. Numbers are
  IEEE doubles in the source; the model leaves the number type \<open>'n\<close> open and takes the
  operations on numbers that the clients use as parameters.
\<close>

datatype 'n jsval =
    JUndefined
  | JNull
  | JBool bool
  | JNum 'n
  | JStr string
  | JArr "'n jsval list"
  | JObj "(string \<times> 'n jsval) list"

text \<open>An expression either yields a value or throws.\<close>

definition bnd :: "error + 'a \<Rightarrow> ('a \<Rightarrow> error + 'b) \<Rightarrow> error + 'b" where
  "bnd e k = (case e of Inl err \<Rightarrow> Inl err | Inr v \<Rightarrow> k v)"

fun map_err :: "('a \<Rightarrow> error + 'b) \<Rightarrow> 'a list \<Rightarrow> error + 'b list" where
  "map_err f [] = Inr []"
| "map_err f (x # xs) = bnd (f x) (\<lambda>y. bnd (map_err f xs) (\<lambda>ys. Inr (y # ys)))"

text \<open>
  A statement runs on a state and either returns or throws; in both cases the mutations
  made so far stay.
\<close>

datatype 's outcome = Returned 's | Thrown error 's

fun state_of :: "'s outcome \<Rightarrow> 's" where
  "state_of (Returned s) = s"
| "state_of (Thrown e s) = s"

definition andThen :: "'s outcome \<Rightarrow> ('s \<Rightarrow> 's outcome) \<Rightarrow> 's outcome" where
  "andThen r k = (case r of Returned s \<Rightarrow> k s | Thrown e s \<Rightarrow> Thrown e s)"

definition eval_in :: "'s \<Rightarrow> error + 'a \<Rightarrow> ('a \<Rightarrow> 's outcome) \<Rightarrow> 's outcome" where
  "eval_in s e k = (case e of Inl err \<Rightarrow> Thrown err s | Inr v \<Rightarrow> k v)"

text \<open>
  Property access \<^verbatim>\<open>v.k\<close> for the names of the data the clients read from frames (none
  of them is a property of arrays, strings or numbers), and indexed access \<^verbatim>\<open>v[i]\<close>.
  Both throw on \<^verbatim>\<open>null\<close> and \<^verbatim>\<open>undefined\<close> only, as reading any property does.
\<close>

fun js_get :: "'n jsval \<Rightarrow> string \<Rightarrow> error + 'n jsval" where
  "js_get JUndefined k = Inl TypeError"
| "js_get JNull k = Inl TypeError"
| "js_get (JObj ps) k = Inr (case map_of ps k of None \<Rightarrow> JUndefined | Some v \<Rightarrow> v)"
| "js_get v k = Inr JUndefined"


text \<open>The property key of an index: its decimal form.\<close>

fun digit_key :: "nat \<Rightarrow> string" where
  "digit_key i =
     (if i < 10 then [''0123456789'' ! i]
      else digit_key (i div 10) @ [''0123456789'' ! (i mod 10)])"

declare digit_key.simps [simp del]


text \<open>\<^verbatim>\<open>String.prototype.toLowerCase\<close> on the ASCII letters; other bytes are kept.\<close>

definition lower_char :: "char \<Rightarrow> char" where
  "lower_char c =
     (case map_of (zip ''ABCDEFGHIJKLMNOPQRSTUVWXYZ'' ''abcdefghijklmnopqrstuvwxyz'') c of
        None \<Rightarrow> c
      | Some l \<Rightarrow> l)"

definition toLowerCase :: "string \<Rightarrow> string" where
  "toLowerCase s = map lower_char s"





text \<open>\<^verbatim>\<open>v.map(f)\<close> on an array; anything else has no \<^verbatim>\<open>map\<close> method.\<close>

fun js_map :: "('n jsval \<Rightarrow> error + 'b) \<Rightarrow> 'n jsval \<Rightarrow> error + 'b list" where
  "js_map f (JArr xs) = map_err f xs"
| "js_map f v = Inl TypeError"

text \<open>A loop whose body may throw: the first throw ends it.\<close>

fun for_each :: "('a \<Rightarrow> 's \<Rightarrow> 's outcome) \<Rightarrow> 'a list \<Rightarrow> 's \<Rightarrow> 's outcome" where
  "for_each body [] s = Returned s"
| "for_each body (x # xs) s = andThen (body x s) (for_each body xs)"

text \<open>
  Iteration (\<^verbatim>\<open>for .. of\<close>, array destructuring) works on arrays and, character by
  character, on strings; \<^verbatim>\<open>forEach\<close> exists on arrays only.
\<close>

fun js_iter :: "'n jsval \<Rightarrow> error + 'n jsval list" where
  "js_iter (JArr xs) = Inr xs"
| "js_iter (JStr s) = Inr (map (\<lambda>c. JStr [c]) s)"
| "js_iter v = Inl TypeError"

fun js_array :: "'n jsval \<Rightarrow> error + 'n jsval list" where
  "js_array (JArr xs) = Inr xs"
| "js_array v = Inl TypeError"


subsection \<open>Markets and subscription maps\<close>

text \<open>
  A market is the caller's object; the clients read \<^verbatim>\<open>id\<close>, \<^verbatim>\<open>base\<close> and \<^verbatim>\<open>quote\<close>.
  (\<open>id\<close> is the identity function of HOL, hence \<open>market_id\<close>.)
\<close>

record market =
  market_id :: string
  base :: string
  quote :: string

text \<open>
  A subscription set is a \<^verbatim>\<open>Map\<close> from the remote id (a string) to the market. A
  \<^verbatim>\<open>Map\<close> keeps its entries in insertion order, so it is an association list with
  distinct keys. \<^verbatim>\<open>Map.prototype.delete\<close> accepts any value as the key to remove and
  compares it with the stored keys; a value that is not a string equals none of them.
\<close>

type_synonym submap = "(string \<times> market) list"

datatype mkey = KStr string | KObj market

definition Map_has :: "submap \<Rightarrow> string \<Rightarrow> bool" where
  "Map_has m k = (map_of m k \<noteq> None)"

definition Map_get :: "submap \<Rightarrow> string \<Rightarrow> market option" where
  "Map_get m k = map_of m k"

fun Map_set :: "submap \<Rightarrow> string \<Rightarrow> market \<Rightarrow> submap" where
  "Map_set [] k v = [(k, v)]"
| "Map_set (p # ps) k v = (if fst p = k then (k, v) # ps else p # Map_set ps k v)"

fun Map_delete :: "submap \<Rightarrow> mkey \<Rightarrow> submap" where
  "Map_delete m (KStr k) = filter (\<lambda>p. fst p \<noteq> k) m"
| "Map_delete m (KObj obj) = m"

definition Map_keys :: "submap \<Rightarrow> string list" where
  "Map_keys m = map fst m"

text \<open>
  \<^verbatim>\<open>map.get(v)\<close> and \<^verbatim>\<open>map.has(v)\<close> with a value read from a frame: only a string
  equals a stored key.
\<close>

fun Map_get_val :: "submap \<Rightarrow> 'n jsval \<Rightarrow> market option" where
  "Map_get_val m (JStr k) = Map_get m k"
| "Map_get_val m v = None"

fun Map_has_val :: "submap \<Rightarrow> 'n jsval \<Rightarrow> bool" where
  "Map_has_val m (JStr k) = Map_has m k"
| "Map_has_val m v = False"

subsection \<open>Emitted events\<close>

text \<open>
  The normalized records. The classes Trade, Level2Point, Level2Snapshot and
  Level2Update are constructed from an object literal and keep its fields; the
  constructor of the payload says which class was instantiated.
\<close>

record 'n trade =
  t_exchange :: string
  t_base :: string
  t_quote :: string
  t_tradeId :: "'n jsval"
  t_unix :: "'n jsval"
  t_side :: "'n jsval"
  t_price :: "'n jsval"
  t_amount :: "'n jsval"

record 'n level2_point =
  p_price :: "'n jsval"
  p_size :: "'n jsval"
  p_count :: "'n jsval"
  p_meta :: "'n jsval"

record 'n level2 =
  l_exchange :: string
  l_base :: string
  l_quote :: string
  l_sequenceId :: "'n jsval"
  l_lastSequenceId :: "'n jsval"
  l_asks :: "'n level2_point list"
  l_bids :: "'n level2_point list"

datatype 'n payload =
    NoPayload
  | Trade "'n trade"
  | Level2Snapshot "'n level2"
  | Level2Update "'n level2"

type_synonym 'n event = "string \<times> 'n payload"

section \<open>BinanceClient\<close>

text \<open>
  \<open>bn_wss\<close> holds the path of the SmartWss when \<^verbatim>\<open>this._wss\<close> is set.
  \<open>bn_reconnectDebounce\<close> is the deadline of the pending debounce timer, if one is
  pending. \<open>bn_sockets\<close> logs what the client did to sockets, \<open>bn_emitted\<close> the events it
  emitted, both in order.
\<close>

datatype sock_action = SockConnect string | SockClose

record 'n binance =
  bn_tradeSubs :: submap
  bn_level2SnapshotSubs :: submap
  bn_level2UpdateSubs :: submap
  bn_wss :: "string option"
  bn_reconnectDebounce :: "nat option"
  bn_watching :: bool
  bn_clock :: nat
  bn_emitted :: "'n event list"
  bn_sockets :: "sock_action list"

definition bn_constructor :: "'n binance" where
  "bn_constructor = \<lparr> bn_tradeSubs = [], bn_level2SnapshotSubs = [], bn_level2UpdateSubs = [],
     bn_wss = None, bn_reconnectDebounce = None, bn_watching = False, bn_clock = 0,
     bn_emitted = [], bn_sockets = [] \<rparr>"

text \<open>The map argument of \<^verbatim>\<open>_subscribe\<close> and \<^verbatim>\<open>_unsubscribe\<close> is one of the three sets.\<close>

datatype bn_kind = BnTrades | BnLevel2Snapshots | BnLevel2Updates

fun bn_subs :: "bn_kind \<Rightarrow> 'n binance \<Rightarrow> submap" where
  "bn_subs BnTrades s = bn_tradeSubs s"
| "bn_subs BnLevel2Snapshots s = bn_level2SnapshotSubs s"
| "bn_subs BnLevel2Updates s = bn_level2UpdateSubs s"

fun bn_put_subs :: "bn_kind \<Rightarrow> submap \<Rightarrow> 'n binance \<Rightarrow> 'n binance" where
  "bn_put_subs BnTrades m s = s\<lparr>bn_tradeSubs := m\<rparr>"
| "bn_put_subs BnLevel2Snapshots m s = s\<lparr>bn_level2SnapshotSubs := m\<rparr>"
| "bn_put_subs BnLevel2Updates m s = s\<lparr>bn_level2UpdateSubs := m\<rparr>"

definition bn_emit :: "string \<Rightarrow> 'n payload \<Rightarrow> 'n binance \<Rightarrow> 'n binance" where
  "bn_emit name p s = s\<lparr>bn_emitted := bn_emitted s @ [(name, p)]\<rparr>"

text \<open>\<^verbatim>\<open>_close\<close>: closes the socket and emits \<^verbatim>\<open>closed\<close> only when a socket exists.\<close>

definition bn__close :: "'n binance \<Rightarrow> 'n binance" where
  "bn__close s =
     (case bn_wss s of
        None \<Rightarrow> s
      | Some w \<Rightarrow> bn_emit ''closed'' NoPayload
                   (s\<lparr>bn_sockets := bn_sockets s @ [SockClose], bn_wss := None\<rparr>))"

definition bn_streams :: "'n binance \<Rightarrow> string list" where
  "bn_streams s =
     map (\<lambda>p. p @ ''@aggTrade'') (Map_keys (bn_tradeSubs s))
     @ map (\<lambda>p. p @ ''@depth20'') (Map_keys (bn_level2SnapshotSubs s))
     @ map (\<lambda>p. p @ ''@depth'') (Map_keys (bn_level2UpdateSubs s))"

fun join :: "string \<Rightarrow> string list \<Rightarrow> string" where
  "join sep [] = []"
| "join sep [x] = x"
| "join sep (x # y # ys) = x @ sep @ join sep (y # ys)"

definition bn_wssPath :: "'n binance \<Rightarrow> string" where
  "bn_wssPath s = ''wss://stream.binance.com:9443/stream?streams='' @ join ''/'' (bn_streams s)"

definition bn__connect :: "'n binance \<Rightarrow> 'n binance" where
  "bn__connect s =
     (case bn_wss s of
        None \<Rightarrow> s\<lparr>bn_wss := Some (bn_wssPath s),
                  bn_sockets := bn_sockets s @ [SockConnect (bn_wssPath s)]\<rparr>
      | Some w \<Rightarrow> s)"

text \<open>
  \<^verbatim>\<open>_reconnect\<close>: \<^verbatim>\<open>clearTimeout\<close> drops the pending timer, \<^verbatim>\<open>setTimeout(.., 100)\<close>
  arms one that is due 100 ms from now.
\<close>

definition bn__reconnect :: "'n binance \<Rightarrow> 'n binance" where
  "bn__reconnect s = s\<lparr>bn_reconnectDebounce := Some (bn_clock s + 100)\<rparr>"

text \<open>The callback of the debounce timer.\<close>

definition bn_debounced :: "'n binance \<Rightarrow> 'n binance" where
  "bn_debounced s = bn__connect (bn__close s)"

definition bn__subscribe :: "bn_kind \<Rightarrow> market \<Rightarrow> 'n binance \<Rightarrow> 'n binance" where
  "bn__subscribe K mkt s =
     (let remote_id = toLowerCase (market_id mkt) in
      if \<not> Map_has (bn_subs K s) remote_id
      then bn__reconnect (bn_put_subs K (Map_set (bn_subs K s) remote_id mkt) s)
      else s)"

text \<open>
  \<^verbatim>\<open>_unsubscribe\<close> tests \<^verbatim>\<open>map.has(remote_id)\<close> and then calls \<^verbatim>\<open>map.delete(market)\<close>,
  with the market object as the key.
\<close>

definition bn__unsubscribe :: "bn_kind \<Rightarrow> market \<Rightarrow> 'n binance \<Rightarrow> 'n binance" where
  "bn__unsubscribe K mkt s =
     (let remote_id = toLowerCase (market_id mkt) in
      if Map_has (bn_subs K s) remote_id
      then bn__reconnect (bn_put_subs K (Map_delete (bn_subs K s) (KObj mkt)) s)
      else s)"

definition bn_subscribeTrades :: "market \<Rightarrow> 'n binance \<Rightarrow> 'n binance" where
  "bn_subscribeTrades = bn__subscribe BnTrades"

definition bn_unsubscribeTrades :: "market \<Rightarrow> 'n binance \<Rightarrow> 'n binance" where
  "bn_unsubscribeTrades = bn__unsubscribe BnTrades"

definition bn_subscribeLevel2Snapshots :: "market \<Rightarrow> 'n binance \<Rightarrow> 'n binance" where
  "bn_subscribeLevel2Snapshots = bn__subscribe BnLevel2Snapshots"

definition bn_unsubscribeLevel2Snapshots :: "market \<Rightarrow> 'n binance \<Rightarrow> 'n binance" where
  "bn_unsubscribeLevel2Snapshots = bn__unsubscribe BnLevel2Snapshots"

definition bn_subscribeLevel2Updates :: "market \<Rightarrow> 'n binance \<Rightarrow> 'n binance" where
  "bn_subscribeLevel2Updates = bn__subscribe BnLevel2Updates"

definition bn_unsubscribeLevel2Updates :: "market \<Rightarrow> 'n binance \<Rightarrow> 'n binance" where
  "bn_unsubscribeLevel2Updates = bn__unsubscribe BnLevel2Updates"

definition bn_reconnect :: "'n binance \<Rightarrow> 'n binance" where
  "bn_reconnect s = bn_emit ''reconnected'' NoPayload (bn__reconnect s)"

definition bn_close :: "'n binance \<Rightarrow> 'n binance" where
  "bn_close s = bn__close s"

text \<open>
  Time passes: \<open>bn_advance d\<close> moves the clock \<open>d\<close> ms on. A debounce timer whose
  deadline is reached on the way runs its callback at the deadline. The callback arms
  no timer, so at most one runs.
\<close>

definition bn_advance :: "nat \<Rightarrow> 'n binance \<Rightarrow> 'n binance" where
  "bn_advance d s =
     (case bn_reconnectDebounce s of
        None \<Rightarrow> s\<lparr>bn_clock := bn_clock s + d\<rparr>
      | Some deadline \<Rightarrow>
          if deadline \<le> bn_clock s + d
          then (bn_debounced (s\<lparr>bn_clock := deadline, bn_reconnectDebounce := None\<rparr>))
                 \<lparr>bn_clock := bn_clock s + d\<rparr>
          else s\<lparr>bn_clock := bn_clock s + d\<rparr>)"

subsection \<open>Inbound frames\<close>

text \<open>
  The operations on numbers that the clients use: \<^verbatim>\<open>Number.prototype.toFixed\<close>,
  truthiness of a number, \<^verbatim>\<open>Math.abs\<close>, the comparison \<^verbatim>\<open>x > 0\<close>, the conversion of
  a number to a string (property keys, template literals) and the conversion of any
  value to a number.
\<close>

record 'n numops =
  toFixed :: "'n \<Rightarrow> nat \<Rightarrow> string"
  num_truthy :: "'n \<Rightarrow> bool"
  num_abs :: "'n \<Rightarrow> 'n"
  num_positive :: "'n \<Rightarrow> bool"
  num_toString :: "'n \<Rightarrow> string"
  toNumber :: "'n jsval \<Rightarrow> 'n"

fun truthy :: "'n numops \<Rightarrow> 'n jsval \<Rightarrow> bool" where
  "truthy ops JUndefined = False"
| "truthy ops JNull = False"
| "truthy ops (JBool b) = b"
| "truthy ops (JNum x) = num_truthy ops x"
| "truthy ops (JStr s) = (s \<noteq> [])"
| "truthy ops (JArr xs) = True"
| "truthy ops (JObj ps) = True"

text \<open>\<^verbatim>\<open>market.base\<close> and \<^verbatim>\<open>market.quote\<close> throw when the lookup found no market.\<close>

definition market_field :: "(market \<Rightarrow> string) \<Rightarrow> market option \<Rightarrow> error + string" where
  "market_field f mo = (case mo of None \<Rightarrow> Inl TypeError | Some mkt \<Rightarrow> Inr (f mkt))"







text \<open>
  The handlers of the socket's \<^verbatim>\<open>open\<close> and \<^verbatim>\<open>disconnected\<close> events. The Watcher
  (\<^verbatim>\<open>../../watcher\<close>) is not part of the sources; the model keeps of it whether its idle
  timer is armed, which \<^verbatim>\<open>start()\<close> and \<^verbatim>\<open>stop()\<close> set as the spec describes them.
\<close>

definition bn__onConnected :: "'n binance \<Rightarrow> 'n binance" where
  "bn__onConnected s = bn_emit ''connected'' NoPayload (s\<lparr>bn_watching := True\<rparr>)"

definition bn__onDisconnected :: "'n binance \<Rightarrow> 'n binance" where
  "bn__onDisconnected s = bn_emit ''disconnected'' NoPayload (s\<lparr>bn_watching := False\<rparr>)"

text \<open>
  Modelled from the spec: the expiry of the Watcher's idle timer, which invokes the
  client's \<^verbatim>\<open>reconnect()\<close> and leaves the Watcher armed.
\<close>

definition bn_watcher_expired :: "'n binance \<Rightarrow> 'n binance" where
  "bn_watcher_expired s = (if bn_watching s then bn_reconnect s else s)"

section \<open>BittrexClient\<close>

text \<open>
  \<^verbatim>\<open>this._subCount\<close> is an object from remote id to a number, undefined until
  \<^verbatim>\<open>_onConnected\<close> first assigns \<^verbatim>\<open>{}\<close>. The numbers are what \<^verbatim>\<open>(x || 0) + 1\<close> and
  \<^verbatim>\<open>x -= 1\<close> produce from an absent property: integers, or \<^verbatim>\<open>NaN\<close> when an absent
  count is decremented. Only own properties are modelled (a remote id is not the name
  of a property of \<^verbatim>\<open>Object.prototype\<close>).
\<close>

datatype cnt = Cnt int | NaN

definition cnt_or_0_plus_1 :: "cnt option \<Rightarrow> cnt" where
  "cnt_or_0_plus_1 c =
     (case c of None \<Rightarrow> Cnt 1 | Some NaN \<Rightarrow> Cnt 1 | Some (Cnt n) \<Rightarrow> Cnt (n + 1))"

definition cnt_minus_1 :: "cnt option \<Rightarrow> cnt" where
  "cnt_minus_1 c = (case c of None \<Rightarrow> NaN | Some NaN \<Rightarrow> NaN | Some (Cnt n) \<Rightarrow> Cnt (n - 1))"

fun cnt_gt_1 :: "cnt \<Rightarrow> bool" where
  "cnt_gt_1 (Cnt n) = (1 < n)"
| "cnt_gt_1 NaN = False"

fun cnt_truthy :: "cnt \<Rightarrow> bool" where
  "cnt_truthy (Cnt n) = (n \<noteq> 0)"
| "cnt_truthy NaN = False"

text \<open>
  The promise cached in \<^verbatim>\<open>this._cloudflare\<close>: pending, resolved with the cookie and
  the user agent, or rejected.
\<close>

record metadata =
  cookie :: string
  user_agent :: string

datatype promise = Pending | Resolved metadata | Rejected

text \<open>
  What the client does to the outside: the handshake request of \<^verbatim>\<open>cloudscraper.get\<close>,
  the start of a SignalR client with its headers, the end of one, and a hub call
  with its method and remote id.
\<close>

datatype bx_action =
    CloudflareGet
  | SignalrStart metadata
  | SignalrEnd
  | HubCall string string

record 'n bittrex =
  bx_tradeSubs :: submap
  bx_level2UpdateSubs :: submap
  bx_cloudflare :: "promise option"
  bx_awaiting :: nat
  bx_wss :: bool
  bx_subCount :: "(string \<Rightarrow> cnt option) option"
  bx_reconnectHandle :: "nat option"
  bx_watching :: bool
  bx_clock :: nat
  bx_emitted :: "'n event list"
  bx_wire :: "bx_action list"

definition bx_retryTimeoutMs :: nat where
  "bx_retryTimeoutMs = 15000"

definition bx_constructor :: "'n bittrex" where
  "bx_constructor = \<lparr> bx_tradeSubs = [], bx_level2UpdateSubs = [], bx_cloudflare = None,
     bx_awaiting = 0, bx_wss = False, bx_subCount = None, bx_reconnectHandle = None,
     bx_watching = False, bx_clock = 0, bx_emitted = [], bx_wire = [] \<rparr>"

datatype bx_kind = BxTrades | BxLevel2Updates

fun bx_subs :: "bx_kind \<Rightarrow> 'n bittrex \<Rightarrow> submap" where
  "bx_subs BxTrades s = bx_tradeSubs s"
| "bx_subs BxLevel2Updates s = bx_level2UpdateSubs s"

fun bx_put_subs :: "bx_kind \<Rightarrow> submap \<Rightarrow> 'n bittrex \<Rightarrow> 'n bittrex" where
  "bx_put_subs BxTrades m s = s\<lparr>bx_tradeSubs := m\<rparr>"
| "bx_put_subs BxLevel2Updates m s = s\<lparr>bx_level2UpdateSubs := m\<rparr>"

definition bx_emit :: "string \<Rightarrow> 'n payload \<Rightarrow> 'n bittrex \<Rightarrow> 'n bittrex" where
  "bx_emit name p s = s\<lparr>bx_emitted := bx_emitted s @ [(name, p)]\<rparr>"

definition bx_call :: "string \<Rightarrow> string \<Rightarrow> 'n bittrex \<Rightarrow> 'n bittrex outcome" where
  "bx_call method remote_id s =
     (if bx_wss s then Returned (s\<lparr>bx_wire := bx_wire s @ [HubCall method remote_id]\<rparr>)
      else Thrown TypeError s)"

text \<open>
  \<^verbatim>\<open>close(emitEvent = true)\<close> stops the Watcher (\<open>bx_watching\<close> says whether it is
  armed, as for BinanceClient), ends the socket if there is one, and emits \<^verbatim>\<open>closed\<close>
  unless told not to.
\<close>

definition bx_close :: "bool \<Rightarrow> 'n bittrex \<Rightarrow> 'n bittrex" where
  "bx_close emitEvent s =
     (let s1 = s\<lparr>bx_watching := False\<rparr>;
          s2 = (if bx_wss s1 then s1\<lparr>bx_wire := bx_wire s1 @ [SignalrEnd], bx_wss := False\<rparr> else s1)
      in if emitEvent then bx_emit ''closed'' NoPayload s2 else s2)"

text \<open>
  \<^verbatim>\<open>_connect\<close> is an async function. Up to its \<^verbatim>\<open>await\<close> it runs with its caller:
  it returns at once when a socket exists, starts the handshake when
  \<^verbatim>\<open>this._cloudflare\<close> is unset, and suspends; \<open>bx_awaiting\<close> counts the suspended calls.
\<close>

definition bx__connectCloudflare :: "'n bittrex \<Rightarrow> 'n bittrex" where
  "bx__connectCloudflare s = s\<lparr>bx_cloudflare := Some Pending, bx_wire := bx_wire s @ [CloudflareGet]\<rparr>"

definition bx__connect :: "'n bittrex \<Rightarrow> 'n bittrex" where
  "bx__connect s =
     (if bx_wss s then s
      else let s1 = (if bx_cloudflare s = None then bx__connectCloudflare s else s)
           in s1\<lparr>bx_awaiting := bx_awaiting s1 + 1\<rparr>)"

text \<open>
  The rest of one suspended \<^verbatim>\<open>_connect\<close>, run once the promise is settled: on a
  rejected promise the \<^verbatim>\<open>await\<close> throws and the call ends; on a resolved one the
  socket is created unless one exists by now.
\<close>

definition bx__connect_resume :: "'n bittrex \<Rightarrow> 'n bittrex" where
  "bx__connect_resume s =
     (case bx_cloudflare s of
        Some (Resolved md) \<Rightarrow>
          if bx_wss s then s
          else s\<lparr>bx_wss := True, bx_wire := bx_wire s @ [SignalrStart md]\<rparr>
      | _ \<Rightarrow> s)"

text \<open>
  The microtasks that run when the current job ends: every suspended \<^verbatim>\<open>_connect\<close>
  resumes if the promise is settled.
\<close>

definition bx_microtasks :: "'n bittrex \<Rightarrow> 'n bittrex" where
  "bx_microtasks s =
     (case bx_cloudflare s of
        None \<Rightarrow> s
      | Some Pending \<Rightarrow> s
      | _ \<Rightarrow> ((bx__connect_resume ^^ bx_awaiting s) s)\<lparr>bx_awaiting := 0\<rparr>)"

text \<open>
  The callback of \<^verbatim>\<open>cloudscraper.get\<close>: \<open>None\<close> is an error, otherwise the two request
  headers as far as present (\<^verbatim>\<open>|| ""\<close> replaces a missing one).
\<close>

definition bx_cloudflare_done :: "(string option \<times> string option) option \<Rightarrow> 'n bittrex \<Rightarrow> 'n bittrex" where
  "bx_cloudflare_done res s =
     (if bx_cloudflare s = Some Pending
      then bx_microtasks
             (s\<lparr>bx_cloudflare := Some
                 (case res of
                    None \<Rightarrow> Rejected
                  | Some (c, u) \<Rightarrow>
                      Resolved \<lparr> cookie = (case c of None \<Rightarrow> [] | Some x \<Rightarrow> x),
                                 user_agent = (case u of None \<Rightarrow> [] | Some x \<Rightarrow> x) \<rparr>)\<rparr>)
      else s)"

definition bx_reconnect :: "bool \<Rightarrow> 'n bittrex \<Rightarrow> 'n bittrex" where
  "bx_reconnect emitEvent s =
     (let s1 = bx__connect (bx_close False s)
      in if emitEvent then bx_emit ''reconnected'' NoPayload s1 else s1)"

text \<open>
  Modelled from the spec: the expiry of the Watcher's idle timer, which invokes the
  client's \<^verbatim>\<open>reconnect()\<close> and arms the Watcher again.
\<close>

definition bx_watcher_expired :: "'n bittrex \<Rightarrow> 'n bittrex" where
  "bx_watcher_expired s = (if bx_watching s then (bx_reconnect True s)\<lparr>bx_watching := True\<rparr> else s)"

text \<open>
  \<^verbatim>\<open>_sendSub\<close> and \<^verbatim>\<open>_sendUnsub\<close>. Indexing \<^verbatim>\<open>this._subCount\<close> throws while it is
  undefined. The replies to the hub calls come later; their callbacks only log, except
  that of \<^verbatim>\<open>QueryExchangeState\<close>.
\<close>

definition bx__sendSub :: "string \<Rightarrow> 'n bittrex \<Rightarrow> 'n bittrex outcome" where
  "bx__sendSub remote_id s =
     (case bx_subCount s of
        None \<Rightarrow> Thrown TypeError s
      | Some c \<Rightarrow>
          let n = cnt_or_0_plus_1 (c remote_id);
              s1 = s\<lparr>bx_subCount := Some (c(remote_id \<mapsto> n))\<rparr>
          in if cnt_gt_1 n then Returned s1
             else andThen
                    (if Map_has (bx_level2UpdateSubs s1) remote_id
                     then bx_call ''QueryExchangeState'' remote_id s1
                     else Returned s1)
                    (bx_call ''SubscribeToExchangeDeltas'' remote_id))"

definition bx__sendUnsub :: "string \<Rightarrow> 'n bittrex \<Rightarrow> 'n bittrex outcome" where
  "bx__sendUnsub remote_id s =
     (case bx_subCount s of
        None \<Rightarrow> Thrown TypeError s
      | Some c \<Rightarrow>
          let n = cnt_minus_1 (c remote_id);
              s1 = s\<lparr>bx_subCount := Some (c(remote_id \<mapsto> n))\<rparr>
          in if cnt_truthy n then Returned s1
             else bx_call ''UnsubscribeToExchangeDeltas'' remote_id s1)"

definition bx__subscribe :: "bx_kind \<Rightarrow> market \<Rightarrow> 'n bittrex \<Rightarrow> 'n bittrex outcome" where
  "bx__subscribe K mkt s =
     (let s1 = bx__connect s;
          remote_id = market_id mkt
      in if \<not> Map_has (bx_subs K s1) remote_id
         then let s2 = bx_put_subs K (Map_set (bx_subs K s1) remote_id mkt) s1
              in if bx_wss s2 then bx__sendSub remote_id s2 else Returned s2
         else Returned s1)"

definition bx__unsubscribe :: "bx_kind \<Rightarrow> market \<Rightarrow> 'n bittrex \<Rightarrow> 'n bittrex outcome" where
  "bx__unsubscribe K mkt s =
     (let remote_id = market_id mkt
      in if Map_has (bx_subs K s) remote_id
         then let s1 = bx_put_subs K (Map_delete (bx_subs K s) (KStr remote_id)) s
              in if bx_wss s1 then bx__sendUnsub remote_id s1 else Returned s1
         else Returned s)"

definition bx_subscribeTrades :: "market \<Rightarrow> 'n bittrex \<Rightarrow> 'n bittrex outcome" where
  "bx_subscribeTrades = bx__subscribe BxTrades"

definition bx_subscribeLevel2Updates :: "market \<Rightarrow> 'n bittrex \<Rightarrow> 'n bittrex outcome" where
  "bx_subscribeLevel2Updates = bx__subscribe BxLevel2Updates"

definition bx_unsubscribeTrades :: "market \<Rightarrow> 'n bittrex \<Rightarrow> 'n bittrex outcome" where
  "bx_unsubscribeTrades = bx__unsubscribe BxTrades"

definition bx_unsubscribeLevel2Updates :: "market \<Rightarrow> 'n bittrex \<Rightarrow> 'n bittrex outcome" where
  "bx_unsubscribeLevel2Updates = bx__unsubscribe BxLevel2Updates"

definition bx__onConnected :: "'n bittrex \<Rightarrow> 'n bittrex outcome" where
  "bx__onConnected s =
     (let s1 = bx_emit ''connected'' NoPayload (s\<lparr>bx_reconnectHandle := None\<rparr>);
          s2 = s1\<lparr>bx_subCount := Some Map.empty, bx_watching := True\<rparr>
      in andThen (for_each bx__sendSub (Map_keys (bx_tradeSubs s2)) s2)
           (\<lambda>s3. for_each bx__sendSub (Map_keys (bx_level2UpdateSubs s3)) s3))"

definition bx__onDisconnected :: "'n bittrex \<Rightarrow> 'n bittrex" where
  "bx__onDisconnected s =
     (bx_emit ''disconnected'' NoPayload (s\<lparr>bx_reconnectHandle := None, bx_watching := False\<rparr>))
       \<lparr>bx_reconnectHandle := Some (bx_clock s + bx_retryTimeoutMs)\<rparr>"

text \<open>
  Time passes. The retry timer armed by \<^verbatim>\<open>_onDisconnected\<close> runs
  \<^verbatim>\<open>reconnect(false)\<close> at its deadline, as a job of its own, so the microtasks follow.
\<close>

definition bx_advance :: "nat \<Rightarrow> 'n bittrex \<Rightarrow> 'n bittrex" where
  "bx_advance d s =
     (case bx_reconnectHandle s of
        None \<Rightarrow> s\<lparr>bx_clock := bx_clock s + d\<rparr>
      | Some deadline \<Rightarrow>
          if deadline \<le> bx_clock s + d
          then (bx_microtasks
                  (bx_reconnect False (s\<lparr>bx_clock := deadline, bx_reconnectHandle := None\<rparr>)))
                 \<lparr>bx_clock := bx_clock s + d\<rparr>
          else s\<lparr>bx_clock := bx_clock s + d\<rparr>)"

subsection \<open>Bittrex frames\<close>

text \<open>
  The md5 hash of the library \<^verbatim>\<open>crypto\<close> (RFC 1321) and its digest in hexadecimal.
  The 32-bit words are integers with the wrap-around written out. The strings hashed
  by the client are ASCII, so that their characters are the bytes hashed.
\<close>

unbundle bit_operations_syntax

definition md5_K :: "int list" where
  "md5_K =
     [0xd76aa478, 0xe8c7b756, 0x242070db, 0xc1bdceee, 0xf57c0faf, 0x4787c62a, 0xa8304613, 0xfd469501,
      0x698098d8, 0x8b44f7af, 0xffff5bb1, 0x895cd7be, 0x6b901122, 0xfd987193, 0xa679438e, 0x49b40821,
      0xf61e2562, 0xc040b340, 0x265e5a51, 0xe9b6c7aa, 0xd62f105d, 0x02441453, 0xd8a1e681, 0xe7d3fbc8,
      0x21e1cde6, 0xc33707d6, 0xf4d50d87, 0x455a14ed, 0xa9e3e905, 0xfcefa3f8, 0x676f02d9, 0x8d2a4c8a,
      0xfffa3942, 0x8771f681, 0x6d9d6122, 0xfde5380c, 0xa4beea44, 0x4bdecfa9, 0xf6bb4b60, 0xbebfbc70,
      0x289b7ec6, 0xeaa127fa, 0xd4ef3085, 0x04881d05, 0xd9d4d039, 0xe6db99e5, 0x1fa27cf8, 0xc4ac5665,
      0xf4292244, 0x432aff97, 0xab9423a7, 0xfc93a039, 0x655b59c3, 0x8f0ccc92, 0xffeff47d, 0x85845dd1,
      0x6fa87e4f, 0xfe2ce6e0, 0xa3014314, 0x4e0811a1, 0xf7537e82, 0xbd3af235, 0x2ad7d2bb, 0xeb86d391]"

definition md5_S :: "nat list" where
  "md5_S =
     [7, 12, 17, 22, 7, 12, 17, 22, 7, 12, 17, 22, 7, 12, 17, 22,
      5, 9, 14, 20, 5, 9, 14, 20, 5, 9, 14, 20, 5, 9, 14, 20,
      4, 11, 16, 23, 4, 11, 16, 23, 4, 11, 16, 23, 4, 11, 16, 23,
      6, 10, 15, 21, 6, 10, 15, 21, 6, 10, 15, 21, 6, 10, 15, 21]"

definition add32 :: "int \<Rightarrow> int \<Rightarrow> int" where
  "add32 x y = (x + y) mod 4294967296"

definition not32 :: "int \<Rightarrow> int" where
  "not32 x = 4294967295 - x"

definition rotl32 :: "nat \<Rightarrow> int \<Rightarrow> int" where
  "rotl32 n x = (x * 2 ^ n) mod 4294967296 + x div 2 ^ (32 - n)"

type_synonym md5_state = "int \<times> int \<times> int \<times> int"

definition md5_step :: "int list \<Rightarrow> md5_state \<Rightarrow> nat \<Rightarrow> md5_state" where
  "md5_step M st i =
     (case st of (a, b, c, d) \<Rightarrow>
        let (f, g) =
              (if i < 16 then ((b AND c) OR (not32 b AND d), i)
               else if i < 32 then ((d AND b) OR (not32 d AND c), (5 * i + 1) mod 16)
               else if i < 48 then (b XOR c XOR d, (3 * i + 5) mod 16)
               else (c XOR (b OR not32 d), (7 * i) mod 16));
            f' = add32 (add32 (add32 f a) (md5_K ! i)) (M ! g)
        in (d, add32 b (rotl32 (md5_S ! i) f'), b, c))"

fun le_word :: "int list \<Rightarrow> int" where
  "le_word [] = 0"
| "le_word (b # bs) = b + 256 * le_word bs"

fun le_bytes :: "nat \<Rightarrow> int \<Rightarrow> int list" where
  "le_bytes 0 x = []"
| "le_bytes (Suc k) x = (x mod 256) # le_bytes k (x div 256)"

fun chunks :: "nat \<Rightarrow> nat \<Rightarrow> 'a list \<Rightarrow> 'a list list" where
  "chunks 0 n xs = []"
| "chunks (Suc k) n xs = take n xs # chunks k n (drop n xs)"

definition md5_block :: "md5_state \<Rightarrow> int list \<Rightarrow> md5_state" where
  "md5_block st bytes =
     (let M = map le_word (chunks 16 4 bytes)
      in case (st, foldl (md5_step M) st [0..<64]) of
           ((a0, b0, c0, d0), (a, b, c, d)) \<Rightarrow> (add32 a0 a, add32 b0 b, add32 c0 c, add32 d0 d))"

definition md5_pad :: "int list \<Rightarrow> int list" where
  "md5_pad bytes =
     bytes @ [128] @ replicate ((119 - length bytes mod 64) mod 64) 0
       @ le_bytes 8 (8 * int (length bytes))"

definition hex_byte :: "int \<Rightarrow> string" where
  "hex_byte b = [''0123456789abcdef'' ! nat (b div 16), ''0123456789abcdef'' ! nat (b mod 16)]"

definition md5_hex :: "string \<Rightarrow> string" where
  "md5_hex str =
     (let bytes = md5_pad (map of_char str);
          blocks = chunks (length bytes div 64) 64 bytes
      in case foldl md5_block (0x67452301, 0xefcdab89, 0x98badcfe, 0x10325476) blocks of
           (a, b, c, d) \<Rightarrow> concat (map (\<lambda>w. concat (map hex_byte (le_bytes 4 w))) [a, b, c, d]))"

text \<open>
  \<^verbatim>\<open>moment.utc(v).valueOf()\<close>, in milliseconds. With \<open>v\<close> undefined, \<^verbatim>\<open>moment.utc(v)\<close>
  is \<^verbatim>\<open>moment.utc()\<close>, the current time: the result is the reading \<open>now\<close> of the clock.
  A string is parsed and a number is taken as a time; what the library makes of them
  is a parameter that is not given the clock (a string in the ISO 8601 form of the
  Bittrex fills is parsed without a look at the clock or at the time zone). For every
  other value the library is a parameter that is given the clock as well, since it
  completes arrays and objects from the current date.
\<close>

record 'n libs =
  moment_of_string :: "string \<Rightarrow> 'n"
  moment_of_number :: "'n \<Rightarrow> 'n"
  moment_of_other :: "'n \<Rightarrow> 'n jsval \<Rightarrow> 'n"

definition moment_utc_valueOf :: "'n libs \<Rightarrow> 'n \<Rightarrow> 'n jsval \<Rightarrow> 'n" where
  "moment_utc_valueOf lib now v =
     (case v of
        JUndefined \<Rightarrow> now
      | JStr x \<Rightarrow> moment_of_string lib x
      | JNum x \<Rightarrow> moment_of_number lib x
      | _ \<Rightarrow> moment_of_other lib now v)"

text \<open>The values that \<^verbatim>\<open>moment.utc\<close> takes as a time by themselves: strings and numbers.\<close>

fun is_time_literal :: "'n jsval \<Rightarrow> bool" where
  "is_time_literal (JStr x) = True"
| "is_time_literal (JNum x) = True"
| "is_time_literal v = False"

text \<open>\<^verbatim>\<open>v.toFixed(d)\<close> throws unless \<open>v\<close> is a number.\<close>

fun js_toFixed :: "'n numops \<Rightarrow> 'n jsval \<Rightarrow> nat \<Rightarrow> error + string" where
  "js_toFixed ops (JNum x) d = Inr (toFixed ops x d)"
| "js_toFixed ops v d = Inl TypeError"

text \<open>
  \<^verbatim>\<open>_getTradeId(msg)\<close>, called while the clock reads \<open>now\<close>; the handlers of the frames
  below pass the reading of the clock at which the frame is handled.
\<close>

definition bx__getTradeId :: "'n numops \<Rightarrow> 'n libs \<Rightarrow> 'n \<Rightarrow> 'n jsval \<Rightarrow> error + string" where
  "bx__getTradeId ops lib now msg =
     bnd (js_get msg ''TimeStamp'') (\<lambda>ts.
     let ms = moment_utc_valueOf lib now ts in
     bnd (js_get msg ''OrderType'') (\<lambda>ot.
     let buysell = (if ot = JStr ''BUY'' then ''1'' else ''0'') in
     bnd (js_get msg ''Rate'') (\<lambda>rate.
     bnd (js_toFixed ops rate 8) (\<lambda>price.
     bnd (js_get msg ''Quantity'') (\<lambda>quantity.
     bnd (js_toFixed ops quantity 8) (\<lambda>amount.
     let preimage = num_toString ops ms @ '':'' @ buysell @ '':'' @ price @ '':'' @ amount
     in Inr (md5_hex preimage)))))))"

definition bx__constructTradeFromMessage ::
    "'n numops \<Rightarrow> 'n libs \<Rightarrow> 'n \<Rightarrow> 'n bittrex \<Rightarrow> 'n jsval \<Rightarrow> 'n jsval \<Rightarrow> error + 'n payload" where
  "bx__constructTradeFromMessage ops lib now s msg marketName =
     (let mkt = Map_get_val (bx_tradeSubs s) marketName in
      bnd (bx__getTradeId ops lib now msg) (\<lambda>tradeId.
      bnd (js_get msg ''TimeStamp'') (\<lambda>ts.
      let unix = moment_utc_valueOf lib now ts in
      bnd (js_get msg ''Rate'') (\<lambda>rate.
      bnd (js_toFixed ops rate 8) (\<lambda>price.
      bnd (js_get msg ''Quantity'') (\<lambda>quantity.
      bnd (js_toFixed ops quantity 8) (\<lambda>amount.
      bnd (js_get msg ''OrderType'') (\<lambda>ot.
      let side = (if ot = JStr ''BUY'' then ''buy'' else ''sell'') in
      bnd (market_field base mkt) (\<lambda>b.
      bnd (market_field quote mkt) (\<lambda>q.
        Inr (Trade \<lparr> t_exchange = ''Bittrex'', t_base = b, t_quote = q, t_tradeId = JStr tradeId,
               t_unix = JNum unix, t_side = JStr side, t_price = JStr price,
               t_amount = JStr amount \<rparr>)))))))))))"

definition bx_newLevel2Point :: "'n numops \<Rightarrow> 'n jsval \<Rightarrow> error + 'n level2_point" where
  "bx_newLevel2Point ops p =
     bnd (js_get p ''Rate'') (\<lambda>rate.
     bnd (js_toFixed ops rate 8) (\<lambda>price.
     bnd (js_get p ''Quantity'') (\<lambda>quantity.
     bnd (js_toFixed ops quantity 8) (\<lambda>size.
     bnd (js_get p ''Type'') (\<lambda>ty.
       Inr \<lparr> p_price = JStr price, p_size = JStr size, p_count = JUndefined,
             p_meta = JObj [(''type'', ty)] \<rparr>)))))"

definition bx_level2_fields :: "'n numops \<Rightarrow> 'n bittrex \<Rightarrow> 'n jsval \<Rightarrow> error + 'n level2" where
  "bx_level2_fields ops s msg =
     bnd (js_get msg ''MarketName'') (\<lambda>name.
     let mkt = Map_get_val (bx_level2UpdateSubs s) name in
     bnd (js_get msg ''Nounce'') (\<lambda>sequenceId.
     bnd (js_get msg ''Buys'') (\<lambda>buys.
     bnd (js_map (bx_newLevel2Point ops) buys) (\<lambda>bids.
     bnd (js_get msg ''Sells'') (\<lambda>sells.
     bnd (js_map (bx_newLevel2Point ops) sells) (\<lambda>asks.
     bnd (market_field base mkt) (\<lambda>b.
     bnd (market_field quote mkt) (\<lambda>q.
       Inr \<lparr> l_exchange = ''Bittrex'', l_base = b, l_quote = q, l_sequenceId = sequenceId,
             l_lastSequenceId = JUndefined, l_asks = asks, l_bids = bids \<rparr>))))))))"

definition bx__constructLevel2Snapshot :: "'n numops \<Rightarrow> 'n bittrex \<Rightarrow> 'n jsval \<Rightarrow> error + 'n payload" where
  "bx__constructLevel2Snapshot ops s msg = bnd (bx_level2_fields ops s msg) (\<lambda>r. Inr (Level2Snapshot r))"

definition bx__constructLevel2Update :: "'n numops \<Rightarrow> 'n bittrex \<Rightarrow> 'n jsval \<Rightarrow> error + 'n payload" where
  "bx__constructLevel2Update ops s msg = bnd (bx_level2_fields ops s msg) (\<lambda>r. Inr (Level2Update r))"

text \<open>The body of \<^verbatim>\<open>msg.A.forEach\<close> in \<^verbatim>\<open>_onMessage\<close>, and the loop over the fills.\<close>

definition bx_onFill ::
    "'n numops \<Rightarrow> 'n libs \<Rightarrow> 'n \<Rightarrow> 'n jsval \<Rightarrow> 'n jsval \<Rightarrow> 'n bittrex \<Rightarrow> 'n bittrex outcome" where
  "bx_onFill ops lib now marketName fill s =
     eval_in s (bx__constructTradeFromMessage ops lib now s fill marketName)
       (\<lambda>t. Returned (bx_emit ''trade'' t s))"

definition bx_onData ::
    "'n numops \<Rightarrow> 'n libs \<Rightarrow> 'n \<Rightarrow> 'n jsval \<Rightarrow> 'n bittrex \<Rightarrow> 'n bittrex outcome" where
  "bx_onData ops lib now data s =
     eval_in s (js_get data ''MarketName'') (\<lambda>name.
       andThen
         (if Map_has_val (bx_tradeSubs s) name
          then eval_in s (bnd (js_get data ''Fills'') js_array)
                 (\<lambda>fills. for_each (bx_onFill ops lib now name) fills s)
          else Returned s)
         (\<lambda>s1. if Map_has_val (bx_level2UpdateSubs s1) name
                then eval_in s1 (bx__constructLevel2Update ops s1 data)
                       (\<lambda>u. Returned (bx_emit ''l2update'' u s1))
                else Returned s1))"

definition bx_onHubMessage ::
    "'n numops \<Rightarrow> 'n libs \<Rightarrow> 'n \<Rightarrow> 'n jsval \<Rightarrow> 'n bittrex \<Rightarrow> 'n bittrex outcome" where
  "bx_onHubMessage ops lib now msg s =
     eval_in s (js_get msg ''M'') (\<lambda>m.
       if m = JStr ''updateExchangeState''
       then eval_in s (bnd (js_get msg ''A'') js_array) (\<lambda>a. for_each (bx_onData ops lib now) a s)
       else Returned s)"

text \<open>
  \<^verbatim>\<open>_onMessage(raw)\<close>: \<open>None\<close> stands for a frame whose \<^verbatim>\<open>utf8Data\<close> is missing or
  empty, \<open>Some None\<close> for data on which \<^verbatim>\<open>JSON.parse\<close> throws, \<open>Some (Some v)\<close> for
  data that parses to \<open>v\<close>.
\<close>

definition bx__onMessage ::
    "'n numops \<Rightarrow> 'n libs \<Rightarrow> 'n \<Rightarrow> 'n jsval option option \<Rightarrow> 'n bittrex \<Rightarrow> 'n bittrex outcome" where
  "bx__onMessage ops lib now raw s =
     (case raw of
        None \<Rightarrow> Returned s
      | Some None \<Rightarrow> Thrown SyntaxError s
      | Some (Some v) \<Rightarrow>
          eval_in s (js_get v ''M'') (\<lambda>m.
            if \<not> truthy ops m then Returned s
            else eval_in s (js_iter m) (\<lambda>msgs. for_each (bx_onHubMessage ops lib now) msgs s)))"

text \<open>
  The callback of the \<^verbatim>\<open>QueryExchangeState\<close> call of \<^verbatim>\<open>_sendSub\<close>, with the reply
  (\<open>None\<close> is an error, which is logged). It assigns \<^verbatim>\<open>result.MarketName\<close>: that
  throws on \<^verbatim>\<open>null\<close> and \<^verbatim>\<open>undefined\<close>, adds or replaces the property of an object
  and leaves a primitive value as it is. (An array reply would keep the property as
  well; the hub replies with an object.)
\<close>

definition js_put :: "'n jsval \<Rightarrow> string \<Rightarrow> 'n jsval \<Rightarrow> error + 'n jsval" where
  "js_put obj k v =
     (case obj of
        JUndefined \<Rightarrow> Inl TypeError
      | JNull \<Rightarrow> Inl TypeError
      | JObj ps \<Rightarrow> Inr (JObj ((k, v) # filter (\<lambda>p. fst p \<noteq> k) ps))
      | _ \<Rightarrow> Inr obj)"

definition bx_onQueryExchangeState ::
    "'n numops \<Rightarrow> string \<Rightarrow> 'n jsval option \<Rightarrow> 'n bittrex \<Rightarrow> 'n bittrex outcome" where
  "bx_onQueryExchangeState ops remote_id reply s =
     (case reply of
        None \<Rightarrow> Returned s
      | Some result \<Rightarrow>
          eval_in s (bnd (js_put result ''MarketName'' (JStr remote_id))
                       (bx__constructLevel2Snapshot ops s))
            (\<lambda>snapshot. Returned (bx_emit ''l2snapshot'' snapshot s)))"

section \<open>BitfinexClient\<close>



















section \<open>Scenarios\<close>

text \<open>Markets used in the examples.\<close>

definition btcusdt :: market where
  "btcusdt = \<lparr> market_id = ''BTCUSDT'', base = ''BTC'', quote = ''USDT'' \<rparr>"

definition btc_eth :: market where
  "btc_eth = \<lparr> market_id = ''BTC-ETH'', base = ''ETH'', quote = ''BTC'' \<rparr>"

text \<open>
  A subscribe or unsubscribe call of the Binance client on one of its three sets
  (\<^verbatim>\<open>subscribeTrades\<close> is \<open>Subscribe BnTrades\<close>, and so on), and a run of such calls,
  each issued the given number of milliseconds after the one before.
\<close>

datatype bn_call = Subscribe bn_kind market | Unsubscribe bn_kind market

fun bn_do :: "bn_call \<Rightarrow> 'n binance \<Rightarrow> 'n binance" where
  "bn_do (Subscribe K m) s = bn__subscribe K m s"
| "bn_do (Unsubscribe K m) s = bn__unsubscribe K m s"

fun bn_run :: "(nat \<times> bn_call) list \<Rightarrow> 'n binance \<Rightarrow> 'n binance" where
  "bn_run [] s = s"
| "bn_run ((d, c) # cs) s = bn_run cs (bn_do c (bn_advance d s))"

text \<open>
  Whether a call gets past the \<^verbatim>\<open>if\<close> of \<^verbatim>\<open>_subscribe\<close> (the key is not in the set)
  or of \<^verbatim>\<open>_unsubscribe\<close> (the key is in the set), and the time on the client's clock at
  which the last call of a run that does so is issued, if there is one.
\<close>

fun bn_passes :: "bn_call \<Rightarrow> 'n binance \<Rightarrow> bool" where
  "bn_passes (Subscribe K m) s = (\<not> Map_has (bn_subs K s) (toLowerCase (market_id m)))"
| "bn_passes (Unsubscribe K m) s = Map_has (bn_subs K s) (toLowerCase (market_id m))"

fun bn_last_pass :: "(nat \<times> bn_call) list \<Rightarrow> 'n binance \<Rightarrow> nat option" where
  "bn_last_pass [] s = None"
| "bn_last_pass ((d, c) # cs) s =
     (case bn_last_pass cs (bn_do c (bn_advance d s)) of
        Some t \<Rightarrow> Some t
      | None \<Rightarrow> if bn_passes c (bn_advance d s) then Some (bn_clock s + d) else None)"

text \<open>
  A run stays within the debounce window when every call of it is issued before the
  debounce timer pending at that moment, if there is one, is due; that is, less than
  100 ms after the last earlier call that armed the timer.
\<close>

fun bn_in_window :: "(nat \<times> bn_call) list \<Rightarrow> 'n binance \<Rightarrow> bool" where
  "bn_in_window [] s = True"
| "bn_in_window ((d, c) # cs) s =
     ((case bn_reconnectDebounce s of
         None \<Rightarrow> True
       | Some deadline \<Rightarrow> bn_clock s + d < deadline)
      \<and> bn_in_window cs (bn_do c (bn_advance d s)))"

text \<open>
  The stream list that the server reads from a connection URL: what follows
  \<^verbatim>\<open>streams=\<close>, split at each \<^verbatim>\<open>/\<close>.
\<close>

fun split_on :: "char \<Rightarrow> string \<Rightarrow> string list" where
  "split_on c [] = [[]]"
| "split_on c (x # xs) =
     (if x = c then [] # split_on c xs
      else (case split_on c xs of [] \<Rightarrow> [[x]] | y # ys \<Rightarrow> (x # y) # ys))"

definition bn_url_streams :: "string \<Rightarrow> string list" where
  "bn_url_streams url =
     split_on (CHR ''/'') (drop (length ''wss://stream.binance.com:9443/stream?streams='') url)"







text \<open>
  To run examples: the operations on numbers for frames whose numbers are integers,
  and a stand-in for \<^verbatim>\<open>moment\<close> that knows the one time stamp of the examples. The
  general theorems hold for every choice.
\<close>

definition int_toString :: "int \<Rightarrow> string" where
  "int_toString i = (if i < 0 then ''-'' @ digit_key (nat (- i)) else digit_key (nat i))"

definition int_ops :: "int numops" where
  "int_ops =
     \<lparr> toFixed = (\<lambda>x d. int_toString x @ (if d = 0 then [] else ''.'' @ replicate d (CHR ''0''))),
       num_truthy = (\<lambda>x. x \<noteq> 0), num_abs = abs, num_positive = (\<lambda>x. 0 < x),
       num_toString = int_toString,
       toNumber = (\<lambda>v. case v of JNum x \<Rightarrow> x | _ \<Rightarrow> 0) \<rparr>"

definition stub_libs :: "int libs" where
  "stub_libs =
     \<lparr> moment_of_string = (\<lambda>x. if x = ''2018-06-01T10:00:00.1'' then 1527847200100 else 0),
       moment_of_number = (\<lambda>x. x),
       moment_of_other = (\<lambda>now v. 0) \<rparr>"

text \<open>The count the Bittrex client holds for a market, if any.\<close>

definition bx_count :: "'n bittrex \<Rightarrow> string \<Rightarrow> cnt option" where
  "bx_count s k = (case bx_subCount s of None \<Rightarrow> None | Some c \<Rightarrow> c k)"

text \<open>
  A Bittrex client that connected without subscriptions: \<^verbatim>\<open>_connect\<close>, the handshake
  succeeds, the socket connects.
\<close>

definition bx_connected :: "int bittrex" where
  "bx_connected =
     state_of (bx__onConnected
       (bx_cloudflare_done (Some (Some ''c'', Some ''ua'')) (bx__connect bx_constructor)))"

text \<open>
  A new Bittrex client on which \<^verbatim>\<open>subscribeTrades\<close> and \<^verbatim>\<open>subscribeLevel2Updates\<close>
  were called for one market and whose handshake then succeeded, so that the socket
  is started.
\<close>

definition bx_started :: "int bittrex" where
  "bx_started =
     bx_cloudflare_done (Some (Some ''c'', Some ''ua''))
       (state_of (bx_subscribeLevel2Updates btc_eth
          (state_of (bx_subscribeTrades btc_eth bx_constructor))))"

text \<open>Two Bittrex fills that differ in a field the trade id does not read.\<close>

definition fill_a :: "int jsval" where
  "fill_a = JObj [(''Id'', JNum 1), (''TimeStamp'', JStr ''2018-06-01T10:00:00.1''),
                  (''OrderType'', JStr ''BUY''), (''Rate'', JNum 7), (''Quantity'', JNum 2)]"

definition fill_b :: "int jsval" where
  "fill_b = JObj [(''Id'', JNum 2), (''TimeStamp'', JStr ''2018-06-01T10:00:00.1''),
                  (''OrderType'', JStr ''BUY''), (''Rate'', JNum 7), (''Quantity'', JNum 2)]"

text \<open>A fill without a time stamp.\<close>

definition fill_c :: "int jsval" where
  "fill_c = JObj [(''Id'', JNum 3), (''OrderType'', JStr ''BUY''), (''Rate'', JNum 7),
                  (''Quantity'', JNum 2)]"

section \<open>Properties of BinanceClient\<close>

lemmas bn_defs = bn_subscribeTrades_def bn_unsubscribeTrades_def bn_subscribeLevel2Snapshots_def
  bn_unsubscribeLevel2Snapshots_def bn_subscribeLevel2Updates_def bn_unsubscribeLevel2Updates_def
  bn__subscribe_def bn__unsubscribe_def bn__reconnect_def bn_reconnect_def bn_close_def bn__close_def
  bn__connect_def bn_debounced_def bn_advance_def bn_emit_def bn_constructor_def bn_wssPath_def
  bn_streams_def bn__onConnected_def bn__onDisconnected_def
  toLowerCase_def lower_char_def Map_has_def Map_get_def Map_keys_def

lemma bn_put_subs_fields [simp]:
  "bn_sockets (bn_put_subs K m s) = bn_sockets s"
  "bn_wss (bn_put_subs K m s) = bn_wss s"
  "bn_clock (bn_put_subs K m s) = bn_clock s"
  "bn_emitted (bn_put_subs K m s) = bn_emitted s"
  "bn_reconnectDebounce (bn_put_subs K m s) = bn_reconnectDebounce s"
  "bn_watching (bn_put_subs K m s) = bn_watching s"
  by (cases K; simp)+

lemma bn_subs_put [simp]: "bn_subs K (bn_put_subs K m s) = m"
  by (cases K) simp_all

subsection \<open>Debounced reconnect\<close>

text \<open>A call that gets past its test arms the timer and touches nothing else outside the sets.\<close>

lemma bn_do_passes:
  assumes "bn_passes c s"
  shows "bn_sockets (bn_do c s) = bn_sockets s"
    and "bn_wss (bn_do c s) = bn_wss s"
    and "bn_clock (bn_do c s) = bn_clock s"
    and "bn_emitted (bn_do c s) = bn_emitted s"
    and "bn_reconnectDebounce (bn_do c s) = Some (bn_clock s + 100)"
  using assms
  by (cases c; simp add: bn__subscribe_def bn__unsubscribe_def bn__reconnect_def Let_def)+

lemma bn_advance_quiet:
  assumes "bn_reconnectDebounce s = Some D" and "bn_clock s + d < D"
  shows "bn_advance d s = s\<lparr>bn_clock := bn_clock s + d\<rparr>"
  using assms by (simp add: bn_advance_def)

lemma bn_advance_idle:
  assumes "bn_reconnectDebounce s = None"
  shows "bn_advance d s = s\<lparr>bn_clock := bn_clock s + d\<rparr>"
  using assms by (simp add: bn_advance_def)

lemma bn_advance_fire:
  assumes "bn_reconnectDebounce s = Some D" and "D \<le> bn_clock s + w"
  shows "bn_sockets (bn_advance w s) =
           bn_sockets s @ (if bn_wss s = None then [] else [SockClose]) @ [SockConnect (bn_wssPath s)]"
    and "bn_reconnectDebounce (bn_advance w s) = None"
    and "bn_wss (bn_advance w s) = Some (bn_wssPath s)"
  using assms
  by (auto simp add: bn_advance_def bn_debounced_def bn__close_def bn__connect_def bn_emit_def
      bn_wssPath_def bn_streams_def split: option.splits)

text \<open>A call that does not get past its test changes nothing.\<close>

lemma bn_do_fails: "\<not> bn_passes c s \<Longrightarrow> bn_do c s = s"
  by (cases c) (simp_all add: bn__subscribe_def bn__unsubscribe_def Let_def)

text \<open>
  A run within the debounce window leaves the socket alone. After it the timer is due
  100 ms after the last call that got past its test, and the run has ended before that;
  if no call got past its test the timer is as it was before the run.
\<close>

lemma bn_run_in_window:
  assumes "bn_in_window cs s"
  shows "bn_sockets (bn_run cs s) = bn_sockets s \<and> bn_wss (bn_run cs s) = bn_wss s
       \<and> bn_emitted (bn_run cs s) = bn_emitted s
       \<and> bn_clock s \<le> bn_clock (bn_run cs s)
       \<and> (bn_last_pass cs s = None \<longrightarrow>
             bn_reconnectDebounce (bn_run cs s) = bn_reconnectDebounce s
           \<and> (\<forall>D. bn_reconnectDebounce s = Some D \<and> bn_clock s < D
                  \<longrightarrow> bn_clock (bn_run cs s) < D))
       \<and> (\<forall>t. bn_last_pass cs s = Some t \<longrightarrow>
             bn_reconnectDebounce (bn_run cs s) = Some (t + 100)
           \<and> t \<le> bn_clock (bn_run cs s) \<and> bn_clock (bn_run cs s) < t + 100)"
  using assms
proof (induction cs arbitrary: s)
  case Nil
  then show ?case by simp
next
  case (Cons dc cs)
  obtain d c where dc: "dc = (d, c)" by (cases dc)
  let ?s1 = "bn_advance d s"
  let ?s2 = "bn_do c ?s1"
  let ?r = "bn_run cs ?s2"
  from Cons.prems dc have
    w: "case bn_reconnectDebounce s of None \<Rightarrow> True | Some deadline \<Rightarrow> bn_clock s + d < deadline"
    and rest: "bn_in_window cs ?s2" by simp_all
  from w have s1: "?s1 = s\<lparr>bn_clock := bn_clock s + d\<rparr>"
    by (cases "bn_reconnectDebounce s") (simp_all add: bn_advance_idle bn_advance_quiet)
  have f1: "bn_sockets ?s1 = bn_sockets s" "bn_wss ?s1 = bn_wss s" "bn_emitted ?s1 = bn_emitted s"
    "bn_reconnectDebounce ?s1 = bn_reconnectDebounce s" "bn_clock ?s1 = bn_clock s + d"
    by (simp_all add: s1)
  from Cons.IH [OF rest] have
    i1: "bn_sockets ?r = bn_sockets ?s2" "bn_wss ?r = bn_wss ?s2" "bn_emitted ?r = bn_emitted ?s2"
    and i2: "bn_clock ?s2 \<le> bn_clock ?r"
    and i3: "bn_last_pass cs ?s2 = None \<Longrightarrow> bn_reconnectDebounce ?r = bn_reconnectDebounce ?s2"
    and i4: "\<And>D. bn_last_pass cs ?s2 = None \<Longrightarrow> bn_reconnectDebounce ?s2 = Some D
                \<Longrightarrow> bn_clock ?s2 < D \<Longrightarrow> bn_clock ?r < D"
    and i5: "\<And>t. bn_last_pass cs ?s2 = Some t \<Longrightarrow>
                bn_reconnectDebounce ?r = Some (t + 100) \<and> t \<le> bn_clock ?r \<and> bn_clock ?r < t + 100"
    by blast+
  have run: "bn_run (dc # cs) s = ?r" by (simp add: dc)
  show ?case
  proof (cases "bn_passes c ?s1")
    case True
    note f = bn_do_passes [OF True]
    have f2: "bn_sockets ?s2 = bn_sockets s" "bn_wss ?s2 = bn_wss s" "bn_emitted ?s2 = bn_emitted s"
      "bn_clock ?s2 = bn_clock s + d" "bn_reconnectDebounce ?s2 = Some (bn_clock s + d + 100)"
      using f f1 by simp_all
    show ?thesis
    proof (cases "bn_last_pass cs ?s2")
      case None
      then have lp: "bn_last_pass (dc # cs) s = Some (bn_clock s + d)"
        using True by (simp add: dc)
      have "bn_reconnectDebounce ?r = Some (bn_clock s + d + 100)"
        using i3 [OF None] f2 by simp
      moreover have "bn_clock ?r < bn_clock s + d + 100"
        using i4 [OF None f2(5)] f2(4) by simp
      moreover have "bn_clock s + d \<le> bn_clock ?r" "bn_clock s \<le> bn_clock ?r"
        using i2 f2(4) by simp_all
      ultimately show ?thesis
        unfolding run lp using i1 f2 by simp
    next
      case (Some t)
      then have lp: "bn_last_pass (dc # cs) s = Some t" by (simp add: dc)
      have "bn_clock s \<le> bn_clock ?r" using i2 f2(4) by simp
      with i5 [OF Some] show ?thesis
        unfolding run lp using i1 f2 by simp
    qed
  next
    case False
    then have same: "?s2 = ?s1" by (rule bn_do_fails)
    have f2: "bn_sockets ?s2 = bn_sockets s" "bn_wss ?s2 = bn_wss s" "bn_emitted ?s2 = bn_emitted s"
      "bn_clock ?s2 = bn_clock s + d" "bn_reconnectDebounce ?s2 = bn_reconnectDebounce s"
      unfolding same using f1 by simp_all
    show ?thesis
    proof (cases "bn_last_pass cs ?s2")
      case None
      then have lp: "bn_last_pass (dc # cs) s = None"
        using False by (simp add: dc)
      have a: "bn_reconnectDebounce ?r = bn_reconnectDebounce s"
        using i3 [OF None] f2 by simp
      have b: "bn_clock ?r < D" if "bn_reconnectDebounce s = Some D" for D
      proof -
        from w that have "bn_clock s + d < D" by simp
        with i4 [OF None, of D] that f2 show ?thesis by simp
      qed
      have "bn_clock s \<le> bn_clock ?r" using i2 f2(4) by simp
      with a b show ?thesis
        unfolding run lp using i1 f2 by simp
    next
      case (Some t)
      then have lp: "bn_last_pass (dc # cs) s = Some t" by (simp add: dc)
      have "bn_clock s \<le> bn_clock ?r" using i2 f2(4) by simp
      with i5 [OF Some] show ?thesis
        unfolding run lp using i1 f2 by simp
    qed
  qed
qed

text \<open>
  C2, as the code has it: take a client with no debounce timer pending and a run of
  subscribe and unsubscribe calls within the debounce window. Every call that gets
  past the test of \<^verbatim>\<open>_subscribe\<close> or \<^verbatim>\<open>_unsubscribe\<close> (a subscribe of a key that is not
  in its set, an unsubscribe of a key that is) replaces the timer, whether one is
  pending or not, by one that is due 100 ms after the call. If \<open>t\<close> is the time of the
  last such call of the run, exactly one cycle follows: after the run the timer is due
  at \<open>t + 100\<close>, which is still to come; until then nothing happens to the socket; from
  then on the open socket, if there was one, has been closed and one socket has been
  opened, on the path of the subscriptions as they are after the run, and no timer is
  left. If no call gets past its test, no timer is armed and no cycle follows,
  however long one waits.
\<close>

theorem bn_debounce_one_cycle:
  fixes s :: "'n binance"
  assumes idle: "bn_reconnectDebounce s = None" and win: "bn_in_window cs s"
  shows "(\<forall>t. bn_last_pass cs s = Some t \<longrightarrow>
            bn_reconnectDebounce (bn_run cs s) = Some (t + 100)
          \<and> t \<le> bn_clock (bn_run cs s) \<and> bn_clock (bn_run cs s) < t + 100
          \<and> (\<forall>v. bn_clock (bn_run cs s) + v < t + 100 \<longrightarrow>
                 bn_sockets (bn_advance v (bn_run cs s)) = bn_sockets s)
          \<and> (\<forall>w. t + 100 \<le> bn_clock (bn_run cs s) + w \<longrightarrow>
                 bn_sockets (bn_advance w (bn_run cs s)) =
                   bn_sockets s @ (if bn_wss s = None then [] else [SockClose])
                     @ [SockConnect (bn_wssPath (bn_run cs s))]
                 \<and> bn_reconnectDebounce (bn_advance w (bn_run cs s)) = None))
       \<and> (bn_last_pass cs s = None \<longrightarrow>
            bn_reconnectDebounce (bn_run cs s) = None
          \<and> (\<forall>w. bn_sockets (bn_advance w (bn_run cs s)) = bn_sockets s))
       \<and> (\<forall>c (u :: 'n binance). bn_passes c u \<longrightarrow>
            bn_reconnectDebounce (bn_do c u) = Some (bn_clock u + 100)
          \<and> bn_sockets (bn_do c u) = bn_sockets u)"
proof -
  let ?r = "bn_run cs s"
  note r = bn_run_in_window [OF win]
  from r have rs: "bn_sockets ?r = bn_sockets s" "bn_wss ?r = bn_wss s" by simp_all
  have a: "bn_reconnectDebounce ?r = Some (t + 100)
          \<and> t \<le> bn_clock ?r \<and> bn_clock ?r < t + 100
          \<and> (\<forall>v. bn_clock ?r + v < t + 100 \<longrightarrow> bn_sockets (bn_advance v ?r) = bn_sockets s)
          \<and> (\<forall>w. t + 100 \<le> bn_clock ?r + w \<longrightarrow>
                 bn_sockets (bn_advance w ?r) =
                   bn_sockets s @ (if bn_wss s = None then [] else [SockClose])
                     @ [SockConnect (bn_wssPath ?r)]
                 \<and> bn_reconnectDebounce (bn_advance w ?r) = None)"
    if "bn_last_pass cs s = Some t" for t
  proof -
    from r that have D: "bn_reconnectDebounce ?r = Some (t + 100)"
      and c: "t \<le> bn_clock ?r" "bn_clock ?r < t + 100" by simp_all
    have "bn_sockets (bn_advance v ?r) = bn_sockets s" if "bn_clock ?r + v < t + 100" for v
      using bn_advance_quiet [OF D that] by (simp add: rs)
    moreover have "bn_sockets (bn_advance w ?r) =
                       bn_sockets s @ (if bn_wss s = None then [] else [SockClose])
                         @ [SockConnect (bn_wssPath ?r)]
                     \<and> bn_reconnectDebounce (bn_advance w ?r) = None"
      if "t + 100 \<le> bn_clock ?r + w" for w
      using bn_advance_fire(1,2) [OF D that] by (simp add: rs)
    ultimately show ?thesis using D c by blast
  qed
  have b: "bn_reconnectDebounce ?r = None \<and> (\<forall>w. bn_sockets (bn_advance w ?r) = bn_sockets s)"
    if "bn_last_pass cs s = None"
  proof -
    from r that idle have n: "bn_reconnectDebounce ?r = None" by simp
    then show ?thesis by (simp add: bn_advance_idle rs)
  qed
  have c: "bn_reconnectDebounce (bn_do c u) = Some (bn_clock u + 100)
          \<and> bn_sockets (bn_do c u) = bn_sockets u"
    if "bn_passes c u" for c and u :: "'n binance"
    using bn_do_passes(5,1) [OF that] by simp
  from a b c show ?thesis by blast
qed

text \<open>
  Witness for C2: on a new client, \<^verbatim>\<open>subscribeTrades\<close>, 50 ms later the same call
  again (which does not get past the test), 40 ms later \<^verbatim>\<open>subscribeLevel2Updates\<close>.
  The last call that gets past its test is issued at 90 ms and the timer is due at
  190 ms: 99 ms after the run no socket has been opened, and 100 ms after it one
  socket has been opened, on the path of both subscriptions.
\<close>

theorem bn_debounce_one_cycle_witness:
  "bn_last_pass
      [(0, Subscribe BnTrades btcusdt), (50, Subscribe BnTrades btcusdt),
       (40, Subscribe BnLevel2Updates btcusdt)] (bn_constructor :: int binance) = Some 90
   \<and> bn_reconnectDebounce (bn_run
      [(0, Subscribe BnTrades btcusdt), (50, Subscribe BnTrades btcusdt),
       (40, Subscribe BnLevel2Updates btcusdt)] (bn_constructor :: int binance)) = Some 190
   \<and> bn_sockets (bn_advance 99 (bn_run
      [(0, Subscribe BnTrades btcusdt), (50, Subscribe BnTrades btcusdt),
       (40, Subscribe BnLevel2Updates btcusdt)] (bn_constructor :: int binance))) = []
   \<and> bn_sockets (bn_advance 100 (bn_run
      [(0, Subscribe BnTrades btcusdt), (50, Subscribe BnTrades btcusdt),
       (40, Subscribe BnLevel2Updates btcusdt)] (bn_constructor :: int binance)))
     = [SockConnect ''wss://stream.binance.com:9443/stream?streams=btcusdt@aggTrade/btcusdt@depth'']"
proof -
  let ?cs = "[(0::nat, Subscribe BnTrades btcusdt), (50, Subscribe BnTrades btcusdt),
              (40, Subscribe BnLevel2Updates btcusdt)]"
  let ?s = "bn_constructor :: int binance"
  let ?r = "bn_run ?cs ?s"
  have 1: "bn_reconnectDebounce ?s = None" by (simp add: bn_defs)
  have 2: "bn_in_window ?cs ?s" by (simp add: bn_defs btcusdt_def)
  have 3: "bn_last_pass ?cs ?s = Some 90" by (simp add: bn_defs btcusdt_def)
  have 4: "bn_wssPath ?r =
             ''wss://stream.binance.com:9443/stream?streams=btcusdt@aggTrade/btcusdt@depth''"
    by (simp add: bn_defs btcusdt_def)
  have 5: "bn_sockets ?s = []" "bn_wss ?s = None" by (simp_all add: bn_constructor_def)
  have 6: "bn_clock ?r = 90" by (simp add: bn_defs btcusdt_def)
  from bn_debounce_one_cycle [OF 1 2] 3
  have D: "bn_reconnectDebounce ?r = Some (90 + 100)"
    and q: "\<forall>v. bn_clock ?r + v < 90 + 100 \<longrightarrow> bn_sockets (bn_advance v ?r) = bn_sockets ?s"
    and f: "\<forall>w. 90 + 100 \<le> bn_clock ?r + w \<longrightarrow>
           bn_sockets (bn_advance w ?r) =
             bn_sockets ?s @ (if bn_wss ?s = None then [] else [SockClose])
               @ [SockConnect (bn_wssPath ?r)]
           \<and> bn_reconnectDebounce (bn_advance w ?r) = None"
    by blast+
  from q 6 have a: "bn_sockets (bn_advance 99 ?r) = bn_sockets ?s" by simp
  from f 6 have b: "bn_sockets (bn_advance 100 ?r) =
             bn_sockets ?s @ (if bn_wss ?s = None then [] else [SockClose])
               @ [SockConnect (bn_wssPath ?r)]"
    by simp
  from 3 D a b show ?thesis unfolding 4 5 by simp
qed

text \<open>
  Counterexample to C2 as stated: a run of one call, \<^verbatim>\<open>unsubscribeTrades\<close> on a new
  client, does not get past the test of \<^verbatim>\<open>_unsubscribe\<close>; 100 ms later no socket has
  been closed or opened and no timer is pending.
\<close>

theorem bn_debounce_no_cycle_counterexample:
  "bn_sockets (bn_advance 100 (bn_run [(0, Unsubscribe BnTrades btcusdt)]
      (bn_constructor :: int binance))) = []
   \<and> bn_reconnectDebounce (bn_advance 100 (bn_run [(0, Unsubscribe BnTrades btcusdt)]
      (bn_constructor :: int binance))) = None"
  by (simp add: bn_defs btcusdt_def)

text \<open>
  A call that does not get past its test leaves the timer of an earlier call running.
  So calls that each follow the one before in less than 100 ms need not stay within
  the debounce window: with a repeated \<^verbatim>\<open>subscribeTrades\<close> 90 ms after the first and
  an \<^verbatim>\<open>unsubscribeTrades\<close> 90 ms later, the first timer runs at 100 ms and the
  second at 280 ms.
\<close>

lemma bn_debounce_two_cycles:
  "bn_sockets (bn_advance 100 (bn_run
      [(0, Subscribe BnTrades btcusdt), (90, Subscribe BnTrades btcusdt),
       (90, Unsubscribe BnTrades btcusdt)] (bn_constructor :: int binance)))
   = [SockConnect ''wss://stream.binance.com:9443/stream?streams=btcusdt@aggTrade'', SockClose,
      SockConnect ''wss://stream.binance.com:9443/stream?streams=btcusdt@aggTrade'']"
  by (simp add: bn_defs btcusdt_def)

subsection \<open>Unsubscribing\<close>

text \<open>\<^verbatim>\<open>_unsubscribe\<close> of the Binance client never changes the set it is given.\<close>

lemma bn_unsubscribe_keeps: "bn_subs K (bn__unsubscribe K m s) = bn_subs K s"
  by (simp add: bn__unsubscribe_def bn__reconnect_def Let_def; cases K; simp)

text \<open>
  C5 on the Binance client: after \<^verbatim>\<open>subscribeTrades\<close> and \<^verbatim>\<open>unsubscribeTrades\<close> of
  the same market the trade set still has the key, because \<^verbatim>\<open>map.delete\<close> is given
  the market object and not the key.
\<close>

theorem bn_unsubscribe_key_remains:
  "Map_has (bn_tradeSubs (bn_unsubscribeTrades btcusdt (bn_subscribeTrades btcusdt
      (bn_constructor :: int binance)))) ''btcusdt''"
  by (simp add: bn_defs btcusdt_def)

subsection \<open>Closing\<close>

text \<open>\<^verbatim>\<open>close()\<close> leaves the debounce timer as it is.\<close>

lemma bn_close_keeps_timer: "bn_reconnectDebounce (bn_close s) = bn_reconnectDebounce s"
  by (simp add: bn_close_def bn__close_def bn_emit_def split: option.splits)

text \<open>
  C7 on the Binance client: a client subscribes to trades, its socket is opened by the
  debounce timer and connects; \<^verbatim>\<open>subscribeLevel2Updates\<close> then arms the debounce
  timer again, and \<^verbatim>\<open>close()\<close> 50 ms later closes the socket and emits \<^verbatim>\<open>closed\<close>
  but does not cancel the timer. 50 ms after the close the timer opens a new socket;
  when that socket opens, the client emits \<^verbatim>\<open>connected\<close>, after \<^verbatim>\<open>closed\<close>.
\<close>

theorem bn_close_keeps_debounce_timer:
  "bn_sockets (bn__onConnected (bn_advance 50 (bn_close (bn_advance 50
      (bn_subscribeLevel2Updates btcusdt (bn__onConnected (bn_advance 100
         (bn_subscribeTrades btcusdt (bn_constructor :: int binance)))))))))
     = [SockConnect ''wss://stream.binance.com:9443/stream?streams=btcusdt@aggTrade'',
        SockClose,
        SockConnect ''wss://stream.binance.com:9443/stream?streams=btcusdt@aggTrade/btcusdt@depth'']
   \<and> bn_emitted (bn__onConnected (bn_advance 50 (bn_close (bn_advance 50
      (bn_subscribeLevel2Updates btcusdt (bn__onConnected (bn_advance 100
         (bn_subscribeTrades btcusdt (bn_constructor :: int binance)))))))))
     = [(''connected'', NoPayload), (''closed'', NoPayload), (''connected'', NoPayload)]"
  by (simp add: bn_defs btcusdt_def)

subsection \<open>Order book frames\<close>












section \<open>Properties of BittrexClient\<close>

lemmas bx_defs = bx_subscribeTrades_def bx_subscribeLevel2Updates_def bx_unsubscribeTrades_def
  bx_unsubscribeLevel2Updates_def bx__subscribe_def bx__unsubscribe_def bx__sendSub_def
  bx__sendUnsub_def bx_call_def bx_close_def bx__connect_def bx__connectCloudflare_def
  bx__connect_resume_def bx_microtasks_def bx_cloudflare_done_def bx_reconnect_def
  bx__onConnected_def bx__onDisconnected_def bx_advance_def bx_emit_def bx_constructor_def
  bx_retryTimeoutMs_def cnt_or_0_plus_1_def cnt_minus_1_def andThen_def eval_in_def
  Map_has_def Map_get_def Map_keys_def

lemma map_of_Map_set: "map_of (Map_set m k v) = (map_of m)(k \<mapsto> v)"
  by (induction m) (auto simp: fun_eq_iff)

lemma map_of_Map_delete: "map_of (Map_delete m (KStr k)) = (map_of m)(k := None)"
  by (induction m) (auto simp: fun_eq_iff)

lemma Map_has_set [simp]: "Map_has (Map_set m k v) k' = (k' = k \<or> Map_has m k')"
  by (simp add: Map_has_def map_of_Map_set)

lemma Map_has_delete [simp]: "Map_has (Map_delete m (KStr k)) k' = (k' \<noteq> k \<and> Map_has m k')"
  by (simp add: Map_has_def map_of_Map_delete del: Map_delete.simps)

lemma bx_put_subs_fields [simp]:
  "bx_wire (bx_put_subs K m s) = bx_wire s"
  "bx_wss (bx_put_subs K m s) = bx_wss s"
  "bx_clock (bx_put_subs K m s) = bx_clock s"
  "bx_emitted (bx_put_subs K m s) = bx_emitted s"
  "bx_reconnectHandle (bx_put_subs K m s) = bx_reconnectHandle s"
  "bx_watching (bx_put_subs K m s) = bx_watching s"
  "bx_subCount (bx_put_subs K m s) = bx_subCount s"
  "bx_cloudflare (bx_put_subs K m s) = bx_cloudflare s"
  "bx_awaiting (bx_put_subs K m s) = bx_awaiting s"
  by (cases K; simp)+

lemma bx_subs_put [simp]:
  "bx_subs K (bx_put_subs K' m s) = (if K = K' then m else bx_subs K s)"
  by (cases K; cases K'; simp)

lemma bx_subs_simps [simp]:
  "bx_subs K (s\<lparr>bx_subCount := c\<rparr>) = bx_subs K s"
  "bx_subs K (s\<lparr>bx_wire := w\<rparr>) = bx_subs K s"
  by (cases K; simp)+

subsection \<open>Reference counts of the shared channel\<close>

text \<open>
  In a client with a socket and counts, \<^verbatim>\<open>_sendSub\<close> returns: it counts the market
  and makes the hub calls unless the count went above one.
\<close>

lemma bx_sendSub_connected:
  assumes "bx_wss s" and "bx_subCount s = Some c"
  shows "bx__sendSub k s =
     Returned (s\<lparr>bx_subCount := Some (c(k \<mapsto> cnt_or_0_plus_1 (c k))),
        bx_wire := bx_wire s @
          (if cnt_gt_1 (cnt_or_0_plus_1 (c k)) then []
           else (if Map_has (bx_level2UpdateSubs s) k
                 then [HubCall ''QueryExchangeState'' k] else [])
                @ [HubCall ''SubscribeToExchangeDeltas'' k])\<rparr>)"
  using assms
  by (simp add: bx__sendSub_def bx_call_def andThen_def Let_def)






text \<open>
  The counts are rebuilt from the sets when the socket connects: on the client
  \<open>bx_started\<close>, whose two subscribe calls came before there was a socket,
  \<^verbatim>\<open>_onConnected\<close> makes one snapshot query and one wire subscribe for the market and
  leaves the count 2.
\<close>

lemma bx_started_onConnected:
  "bx_wire (state_of (bx__onConnected bx_started))
     = [CloudflareGet, SignalrStart \<lparr> cookie = ''c'', user_agent = ''ua'' \<rparr>,
        HubCall ''QueryExchangeState'' ''BTC-ETH'',
        HubCall ''SubscribeToExchangeDeltas'' ''BTC-ETH'']
   \<and> bx_count (state_of (bx__onConnected bx_started)) ''BTC-ETH'' = Some (Cnt 2)"
  by (simp add: bx_started_def bx_defs bx_count_def btc_eth_def Let_def)

text \<open>
  Before the first \<^verbatim>\<open>connected\<close> there are no counts: a subscribe on a client whose
  first socket is started but not yet connected stores the market and then throws in
  \<^verbatim>\<open>_sendSub\<close>.
\<close>

lemma bx_subscribe_before_first_connected:
  "bx_subscribeTrades btc_eth
     (bx_cloudflare_done (Some (Some ''c'', Some ''ua'')) (bx__connect (bx_constructor :: int bittrex)))
   = Thrown TypeError
       ((bx_cloudflare_done (Some (Some ''c'', Some ''ua'')) (bx__connect bx_constructor))
          \<lparr>bx_tradeSubs := [(''BTC-ETH'', btc_eth)]\<rparr>)"
  by (simp add: bx_defs btc_eth_def Let_def)

subsection \<open>Unsubscribing\<close>

text \<open>
  \<^verbatim>\<open>_unsubscribe\<close> of the Bittrex client deletes by key: afterwards the set does not
  have the key, whether \<^verbatim>\<open>_sendUnsub\<close> returned or threw.
\<close>

lemma bx_unsubscribe_removes:
  "\<not> Map_has (bx_subs K (state_of (bx__unsubscribe K m s))) (market_id m)"
proof (cases "Map_has (bx_subs K s) (market_id m)")
  case False
  then show ?thesis by (simp add: bx__unsubscribe_def)
next
  case True
  have "bx_subs K (state_of (bx__sendUnsub k t)) = bx_subs K t" for k and t :: "'a bittrex"
    by (cases K) (auto simp: bx__sendUnsub_def bx_call_def Let_def split: option.splits)
  with True show ?thesis
    by (simp add: bx__unsubscribe_def Let_def del: Map_delete.simps)
qed

subsection \<open>The handshake\<close>

text \<open>
  Once the cached promise is rejected, \<^verbatim>\<open>_connect\<close> followed by the microtasks makes
  no handshake request and creates no socket, and the promise stays rejected.
\<close>

lemma bx_rejected_stays:
  assumes "bx_cloudflare s = Some Rejected" and "\<not> bx_wss s"
  shows "bx_wire (bx_microtasks (bx__connect s)) = bx_wire s"
    and "\<not> bx_wss (bx_microtasks (bx__connect s))"
    and "bx_cloudflare (bx_microtasks (bx__connect s)) = Some Rejected"
proof -
  have r: "bx__connect_resume t = t" if "bx_cloudflare t = Some Rejected" for t :: "'a bittrex"
    using that by (simp add: bx__connect_resume_def)
  have p: "(bx__connect_resume ^^ n) t = t" if "bx_cloudflare t = Some Rejected"
    for t :: "'a bittrex" and n
    using that by (induction n) (simp_all add: r)
  let ?t = "bx__connect s"
  from assms have t: "bx_cloudflare ?t = Some Rejected" "\<not> bx_wss ?t" "bx_wire ?t = bx_wire s"
    by (simp_all add: bx__connect_def)
  have m: "bx_microtasks ?t = ?t\<lparr>bx_awaiting := 0\<rparr>"
    unfolding bx_microtasks_def p [OF t(1)] by (simp add: t(1))
  show "bx_wire (bx_microtasks (bx__connect s)) = bx_wire s"
    and "\<not> bx_wss (bx_microtasks (bx__connect s))"
    and "bx_cloudflare (bx_microtasks (bx__connect s)) = Some Rejected"
    unfolding m using t by simp_all
qed

text \<open>
  C8 on the code: on a new client \<^verbatim>\<open>subscribeTrades\<close> starts the handshake, the
  handshake fails, and an explicit \<^verbatim>\<open>reconnect()\<close> follows. The client has made the
  one handshake request of the first attempt and no other, has no socket, and still
  holds the rejected promise.
\<close>

theorem bx_failed_handshake_is_cached:
  "bx_wire (bx_microtasks (bx_reconnect True (bx_cloudflare_done None
      (state_of (bx_subscribeTrades btc_eth (bx_constructor :: int bittrex))))))
     = [CloudflareGet]
   \<and> \<not> bx_wss (bx_microtasks (bx_reconnect True (bx_cloudflare_done None
      (state_of (bx_subscribeTrades btc_eth (bx_constructor :: int bittrex))))))
   \<and> bx_cloudflare (bx_microtasks (bx_reconnect True (bx_cloudflare_done None
      (state_of (bx_subscribeTrades btc_eth (bx_constructor :: int bittrex))))))
     = Some Rejected"
  by (simp add: bx_defs btc_eth_def Let_def)

subsection \<open>Closing\<close>

text \<open>
  The retry timer of \<^verbatim>\<open>_onDisconnected\<close> outlives \<^verbatim>\<open>close()\<close> as the debounce timer of
  the Binance client does: a connected client is disconnected, closed, and 15 s later
  the timer starts a new socket; when it connects, \<^verbatim>\<open>connected\<close> is emitted after
  \<^verbatim>\<open>closed\<close>.
\<close>

lemma bx_close_keeps_handle: "bx_reconnectHandle (bx_close e s) = bx_reconnectHandle s"
  by (simp add: bx_close_def bx_emit_def Let_def)

lemma bx_close_keeps_retry_timer:
  "bx_emitted (state_of (bx__onConnected (bx_advance 15000 (bx_close True
      (bx__onDisconnected bx_connected)))))
   = [(''connected'', NoPayload), (''disconnected'', NoPayload), (''closed'', NoPayload),
      (''connected'', NoPayload)]
   \<and> bx_wire (bx_advance 15000 (bx_close True (bx__onDisconnected bx_connected)))
   = [CloudflareGet, SignalrStart \<lparr> cookie = ''c'', user_agent = ''ua'' \<rparr>, SignalrEnd,
      SignalrStart \<lparr> cookie = ''c'', user_agent = ''ua'' \<rparr>]"
  by (simp add: bx_connected_def bx_defs Let_def)

subsection \<open>Subscribing again on a new connection\<close>

lemma cnt_gt_1_D: "cnt_gt_1 (cnt_or_0_plus_1 x) \<Longrightarrow> x \<noteq> None"
  by (cases x) (auto simp: cnt_or_0_plus_1_def)

text \<open>
  A loop of \<^verbatim>\<open>_onConnected\<close> over the keys of a set: it returns, changes only the
  counts and the log of hub calls, counts every key of the list, and keeps this: a
  market that is counted has its subscribe call among the calls made since the
  connection.
\<close>

lemma bx_sendSubs_connected:
  assumes "bx_wss s" and "bx_subCount s = Some c" and "bx_wire s = pre @ W"
      and "\<forall>k. c k \<noteq> None \<longrightarrow> HubCall ''SubscribeToExchangeDeltas'' k \<in> set W"
  shows "\<exists>s' c' W'. for_each bx__sendSub ks s = Returned s'
     \<and> bx_wss s' \<and> bx_subCount s' = Some c' \<and> bx_wire s' = pre @ W'
     \<and> bx_tradeSubs s' = bx_tradeSubs s \<and> bx_level2UpdateSubs s' = bx_level2UpdateSubs s
     \<and> bx_emitted s' = bx_emitted s
     \<and> (\<forall>k. c' k \<noteq> None \<longrightarrow> HubCall ''SubscribeToExchangeDeltas'' k \<in> set W')
     \<and> (\<forall>k. c k \<noteq> None \<longrightarrow> c' k \<noteq> None)
     \<and> (\<forall>k \<in> set ks. c' k \<noteq> None)"
  using assms
proof (induction ks arbitrary: s c W)
  case Nil
  then show ?case by simp
next
  case (Cons k ks)
  let ?n = "cnt_or_0_plus_1 (c k)"
  let ?X = "(if cnt_gt_1 ?n then []
           else (if Map_has (bx_level2UpdateSubs s) k
                 then [HubCall ''QueryExchangeState'' k] else [])
                @ [HubCall ''SubscribeToExchangeDeltas'' k])"
  let ?s1 = "s\<lparr>bx_subCount := Some (c(k \<mapsto> ?n)), bx_wire := bx_wire s @ ?X\<rparr>"
  have step: "bx__sendSub k s = Returned ?s1"
    using Cons.prems(1,2) by (rule bx_sendSub_connected)
  have a1: "bx_wss ?s1" using Cons.prems(1) by simp
  have a2: "bx_subCount ?s1 = Some (c(k \<mapsto> ?n))" by simp
  have a3: "bx_wire ?s1 = pre @ (W @ ?X)" using Cons.prems(3) by simp
  have a4: "\<forall>j. (c(k \<mapsto> ?n)) j \<noteq> None
              \<longrightarrow> HubCall ''SubscribeToExchangeDeltas'' j \<in> set (W @ ?X)"
    using Cons.prems(4) cnt_gt_1_D [of "c k"] by auto
  from Cons.IH [OF a1 a2 a3 a4] obtain s' c' W' where
    r: "for_each bx__sendSub ks ?s1 = Returned s'" "bx_wss s'" "bx_subCount s' = Some c'"
       "bx_wire s' = pre @ W'" "bx_tradeSubs s' = bx_tradeSubs ?s1"
       "bx_level2UpdateSubs s' = bx_level2UpdateSubs ?s1" "bx_emitted s' = bx_emitted ?s1"
       "\<forall>k. c' k \<noteq> None \<longrightarrow> HubCall ''SubscribeToExchangeDeltas'' k \<in> set W'"
       "\<forall>j. (c(k \<mapsto> ?n)) j \<noteq> None \<longrightarrow> c' j \<noteq> None"
       "\<forall>k \<in> set ks. c' k \<noteq> None"
    by blast
  have "for_each bx__sendSub (k # ks) s = Returned s'"
    by (simp add: step andThen_def r(1))
  moreover have "\<forall>j. c j \<noteq> None \<longrightarrow> c' j \<noteq> None" using r(9) by auto
  moreover have "\<forall>j \<in> set (k # ks). c' j \<noteq> None" using r(9,10) by auto
  ultimately show ?case using r(2-8) by auto
qed

text \<open>
  \<^verbatim>\<open>_onConnected\<close> on a client with a socket returns, and the hub calls it makes
  include the wire subscribe of every key of both sets.
\<close>

lemma bx_onConnected_resubscribes:
  assumes "bx_wss s"
  shows "\<exists>s' W. bx__onConnected s = Returned s' \<and> bx_wire s' = bx_wire s @ W
     \<and> bx_tradeSubs s' = bx_tradeSubs s \<and> bx_level2UpdateSubs s' = bx_level2UpdateSubs s
     \<and> (\<forall>k \<in> set (Map_keys (bx_tradeSubs s)) \<union> set (Map_keys (bx_level2UpdateSubs s)).
           HubCall ''SubscribeToExchangeDeltas'' k \<in> set W)"
proof -
  let ?s2 = "(bx_emit ''connected'' NoPayload (s\<lparr>bx_reconnectHandle := None\<rparr>))
               \<lparr>bx_subCount := Some Map.empty, bx_watching := True\<rparr>"
  have a1: "bx_wss ?s2" using assms by (simp add: bx_emit_def)
  have a2: "bx_subCount ?s2 = Some Map.empty" by simp
  have a3: "bx_wire ?s2 = bx_wire s @ []" by (simp add: bx_emit_def)
  have a4: "\<forall>k. (Map.empty :: string \<Rightarrow> cnt option) k \<noteq> None
              \<longrightarrow> HubCall ''SubscribeToExchangeDeltas'' k \<in> set []"
    by simp
  from bx_sendSubs_connected [OF a1 a2 a3 a4, of "Map_keys (bx_tradeSubs ?s2)"]
  obtain s3 c3 W3 where
    r: "for_each bx__sendSub (Map_keys (bx_tradeSubs ?s2)) ?s2 = Returned s3" "bx_wss s3"
       "bx_subCount s3 = Some c3" "bx_wire s3 = bx_wire s @ W3"
       "bx_tradeSubs s3 = bx_tradeSubs ?s2" "bx_level2UpdateSubs s3 = bx_level2UpdateSubs ?s2"
       "\<forall>k. c3 k \<noteq> None \<longrightarrow> HubCall ''SubscribeToExchangeDeltas'' k \<in> set W3"
       "\<forall>k \<in> set (Map_keys (bx_tradeSubs ?s2)). c3 k \<noteq> None"
    by blast
  from bx_sendSubs_connected [OF r(2,3,4,7), of "Map_keys (bx_level2UpdateSubs s3)"]
  obtain s4 c4 W4 where
    q: "for_each bx__sendSub (Map_keys (bx_level2UpdateSubs s3)) s3 = Returned s4" "bx_wss s4"
       "bx_subCount s4 = Some c4" "bx_wire s4 = bx_wire s @ W4"
       "bx_tradeSubs s4 = bx_tradeSubs s3" "bx_level2UpdateSubs s4 = bx_level2UpdateSubs s3"
       "bx_emitted s4 = bx_emitted s3"
       "\<forall>k. c4 k \<noteq> None \<longrightarrow> HubCall ''SubscribeToExchangeDeltas'' k \<in> set W4"
       "\<forall>k. c3 k \<noteq> None \<longrightarrow> c4 k \<noteq> None"
       "\<forall>k \<in> set (Map_keys (bx_level2UpdateSubs s3)). c4 k \<noteq> None"
    by blast
  have run: "bx__onConnected s = Returned s4"
    using r(1) q(1) by (simp add: bx__onConnected_def Let_def andThen_def)
  have subs: "bx_tradeSubs ?s2 = bx_tradeSubs s" "bx_level2UpdateSubs ?s2 = bx_level2UpdateSubs s"
    by (simp_all add: bx_emit_def)
  have "\<forall>k \<in> set (Map_keys (bx_tradeSubs s)) \<union> set (Map_keys (bx_level2UpdateSubs s)).
           HubCall ''SubscribeToExchangeDeltas'' k \<in> set W4"
    using r(8) q(8,9,10) r(6) subs by auto
  with run q(4,5,6) r(5,6) subs show ?thesis by auto
qed

text \<open>
  After \<^verbatim>\<open>_onConnected\<close> the client has counts, and a market that is in neither set has
  none: the client is as the theorem on the reference counts takes it.
\<close>

lemma bx_sendSubs_others:
  assumes "bx_wss s" and "bx_subCount s = Some c"
  shows "\<exists>s' c'. for_each bx__sendSub ks s = Returned s'
     \<and> bx_wss s' \<and> bx_subCount s' = Some c'
     \<and> bx_tradeSubs s' = bx_tradeSubs s \<and> bx_level2UpdateSubs s' = bx_level2UpdateSubs s
     \<and> (\<forall>k. k \<notin> set ks \<longrightarrow> c' k = c k)"
  using assms
proof (induction ks arbitrary: s c)
  case Nil
  then show ?case by simp
next
  case (Cons k ks)
  let ?n = "cnt_or_0_plus_1 (c k)"
  let ?X = "(if cnt_gt_1 ?n then []
           else (if Map_has (bx_level2UpdateSubs s) k
                 then [HubCall ''QueryExchangeState'' k] else [])
                @ [HubCall ''SubscribeToExchangeDeltas'' k])"
  let ?s1 = "s\<lparr>bx_subCount := Some (c(k \<mapsto> ?n)), bx_wire := bx_wire s @ ?X\<rparr>"
  have step: "bx__sendSub k s = Returned ?s1"
    using Cons.prems(1,2) by (rule bx_sendSub_connected)
  have a1: "bx_wss ?s1" using Cons.prems(1) by simp
  have a2: "bx_subCount ?s1 = Some (c(k \<mapsto> ?n))" by simp
  from Cons.IH [OF a1 a2] obtain s' c' where
    r: "for_each bx__sendSub ks ?s1 = Returned s'" "bx_wss s'" "bx_subCount s' = Some c'"
       "bx_tradeSubs s' = bx_tradeSubs ?s1" "bx_level2UpdateSubs s' = bx_level2UpdateSubs ?s1"
       "\<forall>j. j \<notin> set ks \<longrightarrow> c' j = (c(k \<mapsto> ?n)) j"
    by blast
  have "for_each bx__sendSub (k # ks) s = Returned s'"
    by (simp add: step andThen_def r(1))
  moreover have "\<forall>j. j \<notin> set (k # ks) \<longrightarrow> c' j = c j" using r(6) by auto
  ultimately show ?case using r(2-5) by auto
qed

lemma bx_onConnected_uncounted:
  assumes "bx_wss s"
      and "\<not> Map_has (bx_tradeSubs s) k" and "\<not> Map_has (bx_level2UpdateSubs s) k"
  shows "\<exists>s' c'. bx__onConnected s = Returned s' \<and> bx_wss s' \<and> bx_subCount s' = Some c'
     \<and> c' k = None
     \<and> \<not> Map_has (bx_tradeSubs s') k \<and> \<not> Map_has (bx_level2UpdateSubs s') k"
proof -
  let ?s2 = "(bx_emit ''connected'' NoPayload (s\<lparr>bx_reconnectHandle := None\<rparr>))
               \<lparr>bx_subCount := Some Map.empty, bx_watching := True\<rparr>"
  have a1: "bx_wss ?s2" using assms(1) by (simp add: bx_emit_def)
  have a2: "bx_subCount ?s2 = Some Map.empty" by simp
  have subs: "bx_tradeSubs ?s2 = bx_tradeSubs s" "bx_level2UpdateSubs ?s2 = bx_level2UpdateSubs s"
    by (simp_all add: bx_emit_def)
  have out: "k \<notin> set (Map_keys (bx_tradeSubs s))" "k \<notin> set (Map_keys (bx_level2UpdateSubs s))"
    using assms(2,3) by (simp_all add: Map_has_def Map_keys_def map_of_eq_None_iff)
  from bx_sendSubs_others [OF a1 a2, of "Map_keys (bx_tradeSubs ?s2)"]
  obtain s3 c3 where
    r: "for_each bx__sendSub (Map_keys (bx_tradeSubs ?s2)) ?s2 = Returned s3" "bx_wss s3"
       "bx_subCount s3 = Some c3" "bx_tradeSubs s3 = bx_tradeSubs ?s2"
       "bx_level2UpdateSubs s3 = bx_level2UpdateSubs ?s2"
       "\<forall>j. j \<notin> set (Map_keys (bx_tradeSubs ?s2)) \<longrightarrow> c3 j = Map.empty j"
    by blast
  from bx_sendSubs_others [OF r(2,3), of "Map_keys (bx_level2UpdateSubs s3)"]
  obtain s4 c4 where
    q: "for_each bx__sendSub (Map_keys (bx_level2UpdateSubs s3)) s3 = Returned s4" "bx_wss s4"
       "bx_subCount s4 = Some c4" "bx_tradeSubs s4 = bx_tradeSubs s3"
       "bx_level2UpdateSubs s4 = bx_level2UpdateSubs s3"
       "\<forall>j. j \<notin> set (Map_keys (bx_level2UpdateSubs s3)) \<longrightarrow> c4 j = c3 j"
    by blast
  have run: "bx__onConnected s = Returned s4"
    using r(1) q(1) by (simp add: bx__onConnected_def Let_def andThen_def)
  have "c4 k = None" using r(5,6) q(6) out subs by simp
  with run q(2,3,4,5) r(4,5) subs assms(2,3) show ?thesis by simp
qed

section \<open>Properties across the clients\<close>

text \<open>
  The stream list is read back from the path: when there is a subscription and no key
  has a \<^verbatim>\<open>/\<close> in it, splitting what follows \<^verbatim>\<open>streams=\<close> at \<^verbatim>\<open>/\<close> gives the streams of
  the three sets.
\<close>

lemma split_on_whole: "c \<notin> set x \<Longrightarrow> split_on c x = [x]"
  by (induction x) auto

lemma split_on_first: "c \<notin> set x \<Longrightarrow> split_on c (x @ c # rest) = x # split_on c rest"
  by (induction x) auto

lemma split_on_join:
  assumes "xs \<noteq> []" and "\<forall>x \<in> set xs. c \<notin> set x"
  shows "split_on c (join [c] xs) = xs"
  using assms
proof (induction "[c]" xs rule: join.induct)
  case 1
  then show ?case by simp
next
  case (2 x)
  then show ?case by (simp add: split_on_whole)
next
  case (3 x y ys)
  then show ?case by (simp add: split_on_first)
qed

lemma bn_url_streams_wssPath:
  assumes "bn_streams s \<noteq> []"
      and "\<forall>k \<in> set (Map_keys (bn_tradeSubs s)) \<union> set (Map_keys (bn_level2SnapshotSubs s))
                 \<union> set (Map_keys (bn_level2UpdateSubs s)). CHR ''/'' \<notin> set k"
  shows "bn_url_streams (bn_wssPath s) = bn_streams s"
proof -
  have "\<forall>x \<in> set (bn_streams s). CHR ''/'' \<notin> set x"
    using assms(2) by (auto simp: bn_streams_def)
  from split_on_join [OF assms(1) this] show ?thesis
    by (simp add: bn_url_streams_def bn_wssPath_def)
qed

text \<open>
  C1. Binance (subscriptions in the URL): \<^verbatim>\<open>_connect\<close> on a client without a socket
  opens one socket, and every run of the debounce callback closes the socket there is
  and opens one socket; the socket is opened on the URL whose stream list, joined with
  \<^verbatim>\<open>/\<close>, holds the stream of every key of every set: \<^verbatim>\<open><key>@aggTrade\<close> for the trade
  set, \<^verbatim>\<open><key>@depth20\<close> for the level 2 snapshot set and \<^verbatim>\<open><key>@depth\<close> for the level 2
  update set, and nothing else. Bittrex (hub calls): \<^verbatim>\<open>_onConnected\<close> on a client with
  a socket returns, and among the hub calls it makes is the wire subscribe of every
  key of both sets.
\<close>

theorem resubscribe_on_connect:
  "(bn_wss s = None \<longrightarrow>
      (\<exists>ss. bn_sockets (bn__connect s) =
               bn_sockets s
                 @ [SockConnect (''wss://stream.binance.com:9443/stream?streams='' @ join ''/'' ss)]
          \<and> bn_wss (bn__connect s) =
               Some (''wss://stream.binance.com:9443/stream?streams='' @ join ''/'' ss)
          \<and> ss = map (\<lambda>k. k @ ''@aggTrade'') (Map_keys (bn_tradeSubs s))
                 @ map (\<lambda>k. k @ ''@depth20'') (Map_keys (bn_level2SnapshotSubs s))
                 @ map (\<lambda>k. k @ ''@depth'') (Map_keys (bn_level2UpdateSubs s))
          \<and> (\<forall>k \<in> set (Map_keys (bn_tradeSubs s)). k @ ''@aggTrade'' \<in> set ss)
          \<and> (\<forall>k \<in> set (Map_keys (bn_level2SnapshotSubs s)). k @ ''@depth20'' \<in> set ss)
          \<and> (\<forall>k \<in> set (Map_keys (bn_level2UpdateSubs s)). k @ ''@depth'' \<in> set ss)))
   \<and> (\<exists>ss. bn_sockets (bn_debounced s) =
               bn_sockets s @ (if bn_wss s = None then [] else [SockClose])
                 @ [SockConnect (''wss://stream.binance.com:9443/stream?streams='' @ join ''/'' ss)]
          \<and> bn_wss (bn_debounced s) =
               Some (''wss://stream.binance.com:9443/stream?streams='' @ join ''/'' ss)
          \<and> ss = map (\<lambda>k. k @ ''@aggTrade'') (Map_keys (bn_tradeSubs s))
                 @ map (\<lambda>k. k @ ''@depth20'') (Map_keys (bn_level2SnapshotSubs s))
                 @ map (\<lambda>k. k @ ''@depth'') (Map_keys (bn_level2UpdateSubs s))
          \<and> (\<forall>k \<in> set (Map_keys (bn_tradeSubs s)). k @ ''@aggTrade'' \<in> set ss)
          \<and> (\<forall>k \<in> set (Map_keys (bn_level2SnapshotSubs s)). k @ ''@depth20'' \<in> set ss)
          \<and> (\<forall>k \<in> set (Map_keys (bn_level2UpdateSubs s)). k @ ''@depth'' \<in> set ss))
   \<and> (bx_wss t \<longrightarrow>
        (\<exists>t' W. bx__onConnected t = Returned t' \<and> bx_wire t' = bx_wire t @ W
           \<and> bx_tradeSubs t' = bx_tradeSubs t \<and> bx_level2UpdateSubs t' = bx_level2UpdateSubs t
           \<and> (\<forall>k \<in> set (Map_keys (bx_tradeSubs t)) \<union> set (Map_keys (bx_level2UpdateSubs t)).
                 HubCall ''SubscribeToExchangeDeltas'' k \<in> set W)))"
proof -
  let ?ss = "map (\<lambda>k. k @ ''@aggTrade'') (Map_keys (bn_tradeSubs s))
                 @ map (\<lambda>k. k @ ''@depth20'') (Map_keys (bn_level2SnapshotSubs s))
                 @ map (\<lambda>k. k @ ''@depth'') (Map_keys (bn_level2UpdateSubs s))"
  let ?url = "''wss://stream.binance.com:9443/stream?streams='' @ join ''/'' ?ss"
  have m: "\<forall>k \<in> set (Map_keys (bn_tradeSubs s)). k @ ''@aggTrade'' \<in> set ?ss"
    "\<forall>k \<in> set (Map_keys (bn_level2SnapshotSubs s)). k @ ''@depth20'' \<in> set ?ss"
    "\<forall>k \<in> set (Map_keys (bn_level2UpdateSubs s)). k @ ''@depth'' \<in> set ?ss"
    by auto
  have c: "bn_sockets (bn__connect s) = bn_sockets s @ [SockConnect ?url]"
    "bn_wss (bn__connect s) = Some ?url" if "bn_wss s = None"
    using that by (simp_all add: bn__connect_def bn_wssPath_def bn_streams_def)
  have d: "bn_sockets (bn_debounced s) =
             bn_sockets s @ (if bn_wss s = None then [] else [SockClose]) @ [SockConnect ?url]"
    "bn_wss (bn_debounced s) = Some ?url"
    by (auto simp: bn_debounced_def bn__connect_def bn__close_def bn_emit_def bn_wssPath_def
        bn_streams_def split: option.splits)
  have 1: "bn_wss s = None \<longrightarrow>
      (\<exists>ss. bn_sockets (bn__connect s) =
               bn_sockets s
                 @ [SockConnect (''wss://stream.binance.com:9443/stream?streams='' @ join ''/'' ss)]
          \<and> bn_wss (bn__connect s) =
               Some (''wss://stream.binance.com:9443/stream?streams='' @ join ''/'' ss)
          \<and> ss = ?ss
          \<and> (\<forall>k \<in> set (Map_keys (bn_tradeSubs s)). k @ ''@aggTrade'' \<in> set ss)
          \<and> (\<forall>k \<in> set (Map_keys (bn_level2SnapshotSubs s)). k @ ''@depth20'' \<in> set ss)
          \<and> (\<forall>k \<in> set (Map_keys (bn_level2UpdateSubs s)). k @ ''@depth'' \<in> set ss))"
    using c m by blast
  have 2: "\<exists>ss. bn_sockets (bn_debounced s) =
               bn_sockets s @ (if bn_wss s = None then [] else [SockClose])
                 @ [SockConnect (''wss://stream.binance.com:9443/stream?streams='' @ join ''/'' ss)]
          \<and> bn_wss (bn_debounced s) =
               Some (''wss://stream.binance.com:9443/stream?streams='' @ join ''/'' ss)
          \<and> ss = ?ss
          \<and> (\<forall>k \<in> set (Map_keys (bn_tradeSubs s)). k @ ''@aggTrade'' \<in> set ss)
          \<and> (\<forall>k \<in> set (Map_keys (bn_level2SnapshotSubs s)). k @ ''@depth20'' \<in> set ss)
          \<and> (\<forall>k \<in> set (Map_keys (bn_level2UpdateSubs s)). k @ ''@depth'' \<in> set ss)"
    using d m by blast
  note 3 = bx_onConnected_resubscribes [of t]
  from 1 2 3 show ?thesis by blast
qed

text \<open>
  Witness for C1: a Binance client with BTCUSDT in the trade set and in the level 2
  update set and no socket, on which \<^verbatim>\<open>_connect\<close> opens one socket on the URL of the
  two streams, and the Bittrex client \<open>bx_started\<close> with BTC-ETH in both sets at the
  moment its socket connects.
\<close>

theorem resubscribe_on_connect_witness:
  "bn_sockets (bn__connect (bn_subscribeLevel2Updates btcusdt (bn_subscribeTrades btcusdt
      (bn_constructor :: int binance))))
     = [SockConnect ''wss://stream.binance.com:9443/stream?streams=btcusdt@aggTrade/btcusdt@depth'']
   \<and> HubCall ''SubscribeToExchangeDeltas'' ''BTC-ETH''
       \<in> set (bx_wire (state_of (bx__onConnected bx_started)))"
proof -
  let ?s = "bn_subscribeLevel2Updates btcusdt (bn_subscribeTrades btcusdt
      (bn_constructor :: int binance))"
  have 1: "bn_wss ?s = None" and 0: "bn_sockets ?s = []" by (simp_all add: bn_defs btcusdt_def)
  have 2: "bx_wss bx_started" by (simp add: bx_started_def bx_defs btc_eth_def Let_def)
  have 3: "''BTC-ETH'' \<in> set (Map_keys (bx_tradeSubs bx_started))"
    by (simp add: bx_started_def bx_defs btc_eth_def Let_def)
  have 4: "join ''/'' (map (\<lambda>k. k @ ''@aggTrade'') (Map_keys (bn_tradeSubs ?s))
                 @ map (\<lambda>k. k @ ''@depth20'') (Map_keys (bn_level2SnapshotSubs ?s))
                 @ map (\<lambda>k. k @ ''@depth'') (Map_keys (bn_level2UpdateSubs ?s)))
             = ''btcusdt@aggTrade/btcusdt@depth''"
    by (simp add: bn_defs btcusdt_def)
  from resubscribe_on_connect [of ?s bx_started] 1 2
  have a: "bn_sockets (bn__connect ?s) =
             bn_sockets ?s
               @ [SockConnect (''wss://stream.binance.com:9443/stream?streams=''
                    @ join ''/'' (map (\<lambda>k. k @ ''@aggTrade'') (Map_keys (bn_tradeSubs ?s))
                 @ map (\<lambda>k. k @ ''@depth20'') (Map_keys (bn_level2SnapshotSubs ?s))
                 @ map (\<lambda>k. k @ ''@depth'') (Map_keys (bn_level2UpdateSubs ?s))))]"
    and b: "\<exists>t' W. bx__onConnected bx_started = Returned t' \<and> bx_wire t' = bx_wire bx_started @ W
           \<and> (\<forall>k \<in> set (Map_keys (bx_tradeSubs bx_started))
                      \<union> set (Map_keys (bx_level2UpdateSubs bx_started)).
                 HubCall ''SubscribeToExchangeDeltas'' k \<in> set W)"
    by blast+
  from b 3 have "HubCall ''SubscribeToExchangeDeltas'' ''BTC-ETH''
       \<in> set (bx_wire (state_of (bx__onConnected bx_started)))"
    by auto
  with a show ?thesis unfolding 4 0 by simp
qed

text \<open>
  C6, as the code has it. Binance: \<^verbatim>\<open>close()\<close> emits \<^verbatim>\<open>closed\<close> exactly once when the
  client has a socket and nothing when it has none (never connected, or closed
  before), so that a second \<^verbatim>\<open>close()\<close> changes nothing. Bittrex: every \<^verbatim>\<open>close()\<close>
  emits \<^verbatim>\<open>closed\<close> exactly once, with or without a socket, so that a second
  \<^verbatim>\<open>close()\<close> emits it a second time.
\<close>

theorem close_emits_closed:
  "bn_emitted (bn_close s) = bn_emitted s @ (if bn_wss s = None then [] else [(''closed'', NoPayload)])
   \<and> bn_close (bn_close s) = bn_close s
   \<and> bx_emitted (bx_close True t) = bx_emitted t @ [(''closed'', NoPayload)]
   \<and> bx_emitted (bx_close True (bx_close True t))
       = bx_emitted t @ [(''closed'', NoPayload), (''closed'', NoPayload)]"
  by (auto simp add: bn_close_def bn__close_def bn_emit_def bx_close_def bx_emit_def Let_def
      split: option.splits)

text \<open>
  Witness for C6: a Binance client whose socket was opened by the debounce timer
  after a subscribe, closed twice, and a new Bittrex client closed once.
\<close>

theorem close_emits_closed_witness:
  "bn_emitted (bn_close (bn_close (bn_advance 100 (bn_subscribeTrades btcusdt
      (bn_constructor :: int binance))))) = [(''closed'', NoPayload)]
   \<and> bx_emitted (bx_close True (bx_constructor :: int bittrex)) = [(''closed'', NoPayload)]"
proof -
  let ?s = "bn_advance 100 (bn_subscribeTrades btcusdt (bn_constructor :: int binance))"
  have 1: "bn_wss ?s \<noteq> None" and 2: "bn_emitted ?s = []"
    by (simp_all add: bn_defs btcusdt_def)
  have 3: "bx_emitted (bx_constructor :: int bittrex) = []"
    by (simp add: bx_constructor_def)
  from close_emits_closed [of ?s "bx_constructor :: int bittrex"] 1 2 3
  show ?thesis by simp
qed

text \<open>
  Counterexample to C6 as stated: \<^verbatim>\<open>close()\<close> on a new Binance client, which has no
  subscriptions and was never connected, emits nothing; and two \<^verbatim>\<open>close()\<close> calls
  on a new Bittrex client emit \<^verbatim>\<open>closed\<close> twice.
\<close>

theorem close_emits_closed_counterexample:
  "bn_emitted (bn_close (bn_constructor :: int binance)) = []
   \<and> bx_emitted (bx_close True (bx_close True (bx_constructor :: int bittrex)))
       = [(''closed'', NoPayload), (''closed'', NoPayload)]"
  by (simp add: bx_defs bn_defs)

section \<open>Properties of BitfinexClient\<close>



section \<open>Trade ids of BittrexClient\<close>

lemma replicate_8: "replicate 8 c = [c, c, c, c, c, c, c, c]"
  by (simp add: numeral_eq_Suc)

lemma int_toString_examples:
  "int_toString 7 = ''7''"
  "int_toString 2 = ''2''"
  "int_toString 1527847200000 = ''1527847200000''"
  "int_toString 1527847200100 = ''1527847200100''"
  "int_toString 1527847260000 = ''1527847260000''"
  by (simp_all add: int_toString_def digit_key.simps)

lemma md5_hex_examples:
  "md5_hex ''1527847200100:1:7.00000000:2.00000000'' = ''d392858c1ccd65e8389dca2012fe15ea''"
  "md5_hex ''1527847200000:1:7.00000000:2.00000000'' = ''d5273a61139f1be50ad09deb3311164b''"
  "md5_hex ''1527847260000:1:7.00000000:2.00000000'' = ''7bca7347a2d35fbf40ebb271453fd1f4''"
  by code_simp+

text \<open>
  The function \<open>md5_hex\<close> on the test vectors of RFC 1321 for the empty string and
  for \<^verbatim>\<open>abc\<close>.
\<close>

lemma md5_hex_rfc1321:
  "md5_hex '''' = ''d41d8cd98f00b204e9800998ecf8427e''"
  "md5_hex ''abc'' = ''900150983cd24fb0d6963f7d28e17f72''"
  by code_simp+

text \<open>
  C10, as the code has it: \<^verbatim>\<open>_getTradeId\<close> reads the state of no client. Two fills
  whose \<^verbatim>\<open>TimeStamp\<close> is the same string or number, and that agree on \<^verbatim>\<open>OrderType\<close>,
  on \<^verbatim>\<open>Rate.toFixed(8)\<close> and on \<^verbatim>\<open>Quantity.toFixed(8)\<close>, get the same result from it,
  whatever else they hold and whatever the clock reads at the two calls; the trades
  \<^verbatim>\<open>_constructTradeFromMessage\<close> builds from them, at whatever times, in whatever
  state of whatever client and for whatever market name, carry the same trade id.
\<close>

theorem bx_tradeId_deterministic:
  assumes "js_get f1 ''TimeStamp'' = Inr ts"
      and "js_get f2 ''TimeStamp'' = Inr ts"
      and "is_time_literal ts"
      and "js_get f1 ''OrderType'' = js_get f2 ''OrderType''"
      and "bnd (js_get f1 ''Rate'') (\<lambda>r. js_toFixed ops r 8)
           = bnd (js_get f2 ''Rate'') (\<lambda>r. js_toFixed ops r 8)"
      and "bnd (js_get f1 ''Quantity'') (\<lambda>r. js_toFixed ops r 8)
           = bnd (js_get f2 ''Quantity'') (\<lambda>r. js_toFixed ops r 8)"
  shows "bx__getTradeId ops lib now1 f1 = bx__getTradeId ops lib now2 f2
     \<and> (\<forall>t1 t2. bx__constructTradeFromMessage ops lib now1 s1 f1 n1 = Inr (Trade t1)
           \<and> bx__constructTradeFromMessage ops lib now2 s2 f2 n2 = Inr (Trade t2)
         \<longrightarrow> t_tradeId t1 = t_tradeId t2)"
proof -
  have ms: "moment_utc_valueOf lib now1 ts = moment_utc_valueOf lib now2 ts"
    using assms(3) by (cases ts) (simp_all add: moment_utc_valueOf_def)
  have same: "bx__getTradeId ops lib now1 f1 = bx__getTradeId ops lib now2 f2"
    using assms(1,2,4,5,6) ms
    by (auto simp: bx__getTradeId_def bnd_def Let_def split: sum.splits)
  have "t_tradeId t = JStr i"
    if "bx__constructTradeFromMessage ops lib now s f n = Inr (Trade t)"
      and "bx__getTradeId ops lib now f = Inr i" for now s f n t i
    using that
    by (auto simp: bx__constructTradeFromMessage_def bnd_def Let_def split: sum.splits)
  moreover have "\<exists>i. bx__getTradeId ops lib now f = Inr i"
    if "bx__constructTradeFromMessage ops lib now s f n = Inr (Trade t)" for now s f n t
    using that
    by (auto simp: bx__constructTradeFromMessage_def bnd_def Let_def split: sum.splits)
  ultimately show ?thesis using same by (metis sum.inject(2))
qed

text \<open>
  Witness for C10: the fills \<open>fill_a\<close> and \<open>fill_b\<close> are different fills (their \<^verbatim>\<open>Id\<close>
  differs) with the same four fields; handled a minute apart, they get the same trade
  id, the md5 of \<^verbatim>\<open>1527847200100:1:7.00000000:2.00000000\<close>.
\<close>

theorem bx_tradeId_deterministic_witness:
  "fill_a \<noteq> fill_b
   \<and> bx__getTradeId int_ops stub_libs 1527847200000 fill_a
       = bx__getTradeId int_ops stub_libs 1527847260000 fill_b
   \<and> bx__getTradeId int_ops stub_libs 1527847200000 fill_a
       = Inr ''d392858c1ccd65e8389dca2012fe15ea''"
proof -
  have 1: "js_get fill_a ''TimeStamp'' = Inr (JStr ''2018-06-01T10:00:00.1'')"
    and 2: "js_get fill_b ''TimeStamp'' = Inr (JStr ''2018-06-01T10:00:00.1'')"
    and 3: "is_time_literal (JStr ''2018-06-01T10:00:00.1'' :: int jsval)"
    and 4: "js_get fill_a ''OrderType'' = js_get fill_b ''OrderType''"
    and 5: "bnd (js_get fill_a ''Rate'') (\<lambda>r. js_toFixed int_ops r 8)
           = bnd (js_get fill_b ''Rate'') (\<lambda>r. js_toFixed int_ops r 8)"
    and 6: "bnd (js_get fill_a ''Quantity'') (\<lambda>r. js_toFixed int_ops r 8)
           = bnd (js_get fill_b ''Quantity'') (\<lambda>r. js_toFixed int_ops r 8)"
    by (simp_all add: fill_a_def fill_b_def)
  have 7: "fill_a \<noteq> fill_b" by (simp add: fill_a_def fill_b_def)
  have 8: "bx__getTradeId int_ops stub_libs 1527847200000 fill_a
             = Inr ''d392858c1ccd65e8389dca2012fe15ea''"
    by (simp add: bx__getTradeId_def fill_a_def bnd_def int_ops_def stub_libs_def
        moment_utc_valueOf_def int_toString_examples replicate_8 md5_hex_examples)
  from bx_tradeId_deterministic [OF 1 2 3 4 5 6, of stub_libs 1527847200000 1527847260000] 7 8
  show ?thesis by simp
qed

text \<open>
  Counterexample to C10 as stated: the fill \<open>fill_c\<close> has no \<^verbatim>\<open>TimeStamp\<close>, so that
  \<^verbatim>\<open>moment.utc\<close> takes the current time. Handled twice, a minute apart, the same fill
  gets two trade ids: the md5 of \<^verbatim>\<open>1527847200000:1:7.00000000:2.00000000\<close> and that
  of \<^verbatim>\<open>1527847260000:1:7.00000000:2.00000000\<close>.
\<close>

theorem bx_tradeId_clock_counterexample:
  "js_get fill_c ''TimeStamp'' = Inr JUndefined
   \<and> bx__getTradeId int_ops stub_libs 1527847200000 fill_c
       = Inr ''d5273a61139f1be50ad09deb3311164b''
   \<and> bx__getTradeId int_ops stub_libs 1527847260000 fill_c
       = Inr ''7bca7347a2d35fbf40ebb271453fd1f4''
   \<and> bx__getTradeId int_ops stub_libs 1527847200000 fill_c
       \<noteq> bx__getTradeId int_ops stub_libs 1527847260000 fill_c"
  by (simp add: bx__getTradeId_def fill_c_def bnd_def int_ops_def stub_libs_def
      moment_utc_valueOf_def int_toString_examples replicate_8 md5_hex_examples)

end
